theory Spec2Isabelle
  imports Complex_Main
begin

section \<open>Deployment impact analysis: a shallow embedding\<close>

text \<open>
  The development embeds \<^verbatim>\<open>pr_agent/tools/pr_deployment_impact.py\<close> (class
  \<^verbatim>\<open>PRDeploymentImpact\<close>) and the endpoint \<^verbatim>\<open>api_analyze\<close> of
  \<^verbatim>\<open>web_app/app.py\<close>.

  Conventions.
  \<^item> A Python \<^verbatim>\<open>str\<close> is a \<open>string\<close>; a character outside ASCII is given by the
    bytes of its UTF-8 encoding, exactly as they stand in the source file.
  \<^item> An exception is a value of type \<open>exn\<close>; a call that may raise returns
    \<open>exn + 'a\<close> (\<open>Inl\<close> is the raise) together with the state it leaves behind, since
    mutations made before a raise persist.
  \<^item> The collaborators outside this file (the git provider, the completion client,
    the diff budgeter, the clock) are an \<open>env\<close> of oracles. Every call made to them is
    appended to the \<open>trace\<close> with its outcome, and an oracle may answer differently
    depending on the trace so far.
  \<^item> Calls to the logger are not modelled: they are taken to return normally and to
    have no effect that is observed here.
\<close>

subsection \<open>Python values and exceptions\<close>

datatype pyval = PyNone | PyStr string | PyBool bool

text \<open>Python truthiness, as used by \<^verbatim>\<open>if x\<close> and \<^verbatim>\<open>not x\<close>.\<close>

fun truthy :: "pyval \<Rightarrow> bool" where
  "truthy PyNone = False"
| "truthy (PyStr s) = (s \<noteq> [])"
| "truthy (PyBool b) = b"

text \<open>Python \<^verbatim>\<open>str(x)\<close>, which is how a template engine prints a value.\<close>

fun str_of :: "pyval \<Rightarrow> string" where
  "str_of PyNone = ''None''"
| "str_of (PyStr s) = s"
| "str_of (PyBool b) = (if b then ''True'' else ''False'')"

definition of_opt :: "string option \<Rightarrow> pyval" where
  "of_opt x = (case x of None \<Rightarrow> PyNone | Some s \<Rightarrow> PyStr s)"

text \<open>
  The exceptions that can occur. \<open>TemplateRenderError\<close> is the specification's name for
  what strict rendering raises on a missing variable; \<open>TransientFailure\<close> and
  \<open>PermanentFailure\<close> are the two failure modes of the completion client;
  \<open>OtherException\<close> is any other subclass of \<^verbatim>\<open>Exception\<close>, with its message;
  \<open>BaseExn\<close> is an exception that derives from \<^verbatim>\<open>BaseException\<close> only
  (cancellation, keyboard interrupt, system exit).
\<close>

datatype exn =
    NameError string
  | TemplateRenderError string
  | TransientFailure string
  | PermanentFailure string
  | OtherException string
  | BaseExn string

text \<open>\<^verbatim>\<open>isinstance(e, Exception)\<close>: what \<^verbatim>\<open>except Exception\<close> catches.\<close>

fun is_Exception :: "exn \<Rightarrow> bool" where
  "is_Exception (BaseExn m) = False"
| "is_Exception e = True"

text \<open>\<^verbatim>\<open>str(e)\<close>.\<close>

fun str_exn :: "exn \<Rightarrow> string" where
  "str_exn (NameError n) = ''name '' @ [CHR 0x27] @ n @ [CHR 0x27] @ '' is not defined''"
| "str_exn (TemplateRenderError x) = [CHR 0x27] @ x @ [CHR 0x27] @ '' is undefined''"
| "str_exn (TransientFailure m) = m"
| "str_exn (PermanentFailure m) = m"
| "str_exn (OtherException m) = m"
| "str_exn (BaseExn m) = m"

subsection \<open>Prompt templates and strict rendering\<close>

text \<open>
  Modelled from the spec: the template engine (\<^verbatim>\<open>jinja2.Environment\<close> with
  \<^verbatim>\<open>undefined=StrictUndefined\<close>) is an imported library and is not part of the
  sources. Following section 4.2 of the specification, a template is the sequence of
  its literal text and its placeholders, and rendering substitutes every placeholder from
  the context, failing with \<open>TemplateRenderError\<close> naming the variable at the first
  placeholder whose variable is absent. Parsing of the template string is outside the
  model.
\<close>

datatype segment = Text string | Var string

type_synonym template = "segment list"

type_synonym analysis_context = "string \<rightharpoonup> pyval"

fun render :: "template \<Rightarrow> analysis_context \<Rightarrow> exn + string" where
  "render [] ctx = Inr []"
| "render (Text t # rest) ctx =
     (case render rest ctx of Inl e \<Rightarrow> Inl e | Inr out \<Rightarrow> Inr (t @ out))"
| "render (Var x # rest) ctx =
     (case ctx x of
        None \<Rightarrow> Inl (TemplateRenderError x)
      | Some v \<Rightarrow> (case render rest ctx of Inl e \<Rightarrow> Inl e | Inr out \<Rightarrow> Inr (str_of v @ out)))"

text \<open>
  The variables a template refers to, and the text of a template in which every
  placeholder is replaced by the printed value of its variable.
\<close>

fun referenced :: "template \<Rightarrow> string list" where
  "referenced [] = []"
| "referenced (Text t # rest) = referenced rest"
| "referenced (Var x # rest) = x # referenced rest"

fun substitute :: "(string \<Rightarrow> pyval) \<Rightarrow> template \<Rightarrow> string" where
  "substitute val [] = []"
| "substitute val (Text t # rest) = t @ substitute val rest"
| "substitute val (Var x # rest) = str_of (val x) @ substitute val rest"

subsection \<open>Settings\<close>

text \<open>
  The object returned by \<^verbatim>\<open>get_settings()\<close>, restricted to the keys the code reads or
  writes. A section or key tested with \<^verbatim>\<open>hasattr\<close> is an \<open>option\<close>: \<open>None\<close>
  when the attribute is absent.
\<close>

record impact_section =
  extra_instructions :: "string option"
  persistent_comment :: "bool option"
  final_update_message :: "string option"

record prompt_section =
  system :: "template option"
  user :: "template option"

record settings =
  publish_output :: bool
  temperature :: rat
  is_auto_command :: bool
  enable_ai_metadata :: bool
  pr_deployment_impact :: "impact_section option"
  pr_deployment_impact_prompt :: "prompt_section option"
  data :: "(string \<rightharpoonup> string) option"

subsection \<open>Name resolution\<close>

text \<open>
  The names bound at module level of \<^verbatim>\<open>pr_deployment_impact.py\<close> (its imports, lines
  1 to 22, and the class statement, line 25, with the names every module has), the names
  of Python's builtin functions and constants and of the builtin exception classes, and
  the names bound as local variables by \<^verbatim>\<open>__init__\<close> (lines 31 to 144) and by
  \<^verbatim>\<open>_get_prediction\<close> (lines 227 to 266).
\<close>

definition module_globals :: "string list" where
  "module_globals =
    [''__name__'', ''__doc__'', ''__package__'', ''__loader__'', ''__spec__'', ''__file__'',
     ''__builtins__'',
     ''asyncio'', ''copy'', ''traceback'', ''datetime'', ''partial'', ''Dict'', ''List'',
     ''Optional'', ''Environment'', ''StrictUndefined'', ''BaseAiHandler'',
     ''LiteLLMAIHandler'', ''add_ai_metadata_to_diff_files'', ''get_pr_diff'',
     ''retry_with_fallback_models'', ''TokenHandler'', ''ModelType'', ''load_yaml'',
     ''get_settings'', ''get_git_provider_with_context'', ''get_main_pr_language'',
     ''get_logger'', ''PRDeploymentImpact'']"

definition builtin_names :: "string list" where
  "builtin_names =
    [''abs'', ''aiter'', ''all'', ''anext'', ''any'', ''ascii'', ''bin'', ''bool'',
     ''breakpoint'', ''bytearray'', ''bytes'', ''callable'', ''chr'', ''classmethod'',
     ''compile'', ''complex'', ''delattr'', ''dict'', ''dir'', ''divmod'', ''enumerate'',
     ''eval'', ''exec'', ''filter'', ''float'', ''format'', ''frozenset'', ''getattr'',
     ''globals'', ''hasattr'', ''hash'', ''help'', ''hex'', ''id'', ''input'', ''int'',
     ''isinstance'', ''issubclass'', ''iter'', ''len'', ''list'', ''locals'', ''map'',
     ''max'', ''memoryview'', ''min'', ''next'', ''object'', ''oct'', ''open'', ''ord'',
     ''pow'', ''print'', ''property'', ''range'', ''repr'', ''reversed'', ''round'',
     ''set'', ''setattr'', ''slice'', ''sorted'', ''staticmethod'', ''str'', ''sum'',
     ''super'', ''tuple'', ''type'', ''vars'', ''zip'', ''__import__'',
     ''None'', ''True'', ''False'', ''Ellipsis'', ''NotImplemented'', ''__debug__'',
     ''copyright'', ''credits'', ''license'', ''exit'', ''quit'',
     ''BaseException'', ''BaseExceptionGroup'', ''GeneratorExit'', ''KeyboardInterrupt'',
     ''SystemExit'', ''Exception'', ''ArithmeticError'', ''FloatingPointError'',
     ''OverflowError'', ''ZeroDivisionError'', ''AssertionError'', ''AttributeError'',
     ''BufferError'', ''EOFError'', ''ExceptionGroup'', ''ImportError'',
     ''ModuleNotFoundError'', ''LookupError'', ''IndexError'', ''KeyError'',
     ''MemoryError'', ''NameError'', ''UnboundLocalError'', ''OSError'',
     ''BlockingIOError'', ''ChildProcessError'', ''ConnectionError'', ''BrokenPipeError'',
     ''ConnectionAbortedError'', ''ConnectionRefusedError'', ''ConnectionResetError'',
     ''FileExistsError'', ''FileNotFoundError'', ''InterruptedError'',
     ''IsADirectoryError'', ''NotADirectoryError'', ''PermissionError'',
     ''ProcessLookupError'', ''TimeoutError'', ''ReferenceError'', ''RuntimeError'',
     ''NotImplementedError'', ''RecursionError'', ''StopAsyncIteration'',
     ''StopIteration'', ''SyntaxError'', ''IndentationError'', ''TabError'',
     ''SystemError'', ''TypeError'', ''ValueError'', ''UnicodeError'',
     ''UnicodeDecodeError'', ''UnicodeEncodeError'', ''UnicodeTranslateError'',
     ''EnvironmentError'', ''IOError'',
     ''Warning'', ''BytesWarning'', ''DeprecationWarning'', ''EncodingWarning'',
     ''FutureWarning'', ''ImportWarning'', ''PendingDeprecationWarning'',
     ''ResourceWarning'', ''RuntimeWarning'', ''SyntaxWarning'', ''UnicodeWarning'',
     ''UserWarning'']"

definition init_locals :: "string list" where
  "init_locals =
    [''self'', ''pr_url'', ''cli_mode'', ''args'', ''ai_handler'',
     ''default_system_prompt'', ''default_user_prompt'', ''system_prompt'',
     ''user_prompt'']"

definition get_prediction_locals :: "string list" where
  "get_prediction_locals =
    [''self'', ''model'', ''system_prompt'', ''user_prompt'', ''env'',
     ''system_prompt_template'', ''user_prompt_template'', ''e'', ''response'',
     ''finish_reason'']"

text \<open>
  Reading a name inside a function whose local names are \<open>locals\<close>: the name is found
  if it is a local of that function, a module global or a builtin, and the read raises
  \<^verbatim>\<open>NameError\<close> otherwise. The locals of another function are never consulted.
\<close>

definition load_name :: "string list \<Rightarrow> string \<Rightarrow> 'a \<Rightarrow> exn + 'a" where
  "load_name locals n v =
     (if n \<in> set locals \<or> n \<in> set module_globals \<or> n \<in> set builtin_names
      then Inr v else Inl (NameError n))"

subsection \<open>The compiled-in templates (locals of the constructor, lines 81 to 130)\<close>

definition default_system_prompt :: template where
  "default_system_prompt =
    [Text ''\<newline>'',
     Text ''        You are a deployment impact analyzer. Your task is to analyze code changes in a pull request and predict \<newline>'',
     Text ''        how they might affect production systems. Focus on identifying dependencies, infrastructure requirements, \<newline>'',
     Text ''        potential downtime needs, and services that might be affected.\<newline>'',
     Text ''        '']"

definition default_user_prompt :: template where
  "default_user_prompt =
    [Text ''\<newline>'',
     Text ''        Please analyze the following pull request and predict its deployment impact:\<newline>'',
     Text ''        \<newline>'',
     Text ''        # Pull Request Information\<newline>'',
     Text ''        - Title: '',
     Var ''title'',
     Text ''\<newline>'',
     Text ''        - Branch: '',
     Var ''branch'',
     Text ''\<newline>'',
     Text ''        - Description: '',
     Var ''description'',
     Text ''\<newline>'',
     Text ''        - Main Language: '',
     Var ''language'',
     Text ''\<newline>'',
     Text ''        \<newline>'',
     Text ''        # Code Changes\<newline>'',
     Text ''        ```diff\<newline>'',
     Text ''        '',
     Var ''diff'',
     Text ''\<newline>'',
     Text ''        ```\<newline>'',
     Text ''        \<newline>'',
     Text ''        # Commit Messages\<newline>'',
     Text ''        '',
     Var ''commit_messages_str'',
     Text ''\<newline>'',
     Text ''        \<newline>'',
     Text ''        Please provide a comprehensive deployment impact analysis including:\<newline>'',
     Text ''        \<newline>'',
     Text ''        1. System Dependency Analysis:\<newline>'',
     Text ''           - Identify affected components and services\<newline>'',
     Text ''           - Map code changes to infrastructure resources\<newline>'',
     Text ''           - Highlight configuration dependencies\<newline>'',
     Text ''        \<newline>'',
     Text ''        2. Change Impact Assessment:\<newline>'',
     Text ''           - Identify modified services, endpoints, or data models\<newline>'',
     Text ''           - Detect schema changes requiring migrations\<newline>'',
     Text ''           - Flag changes to performance-critical paths\<newline>'',
     Text ''        \<newline>'',
     Text ''        3. Deployment Requirements:\<newline>'',
     Text ''           - Estimate resource requirement changes (memory, CPU, storage)\<newline>'',
     Text ''           - Identify potential downtime requirements\<newline>'',
     Text ''           - List services requiring coordinated deployments\<newline>'',
     Text ''        \<newline>'',
     Text ''        4. Deployment Risk Score:\<newline>'',
     Text ''           - Provide a risk score (Low, Medium, High) with justification\<newline>'',
     Text ''           - Highlight specific concerns requiring extra attention\<newline>'',
     Text ''        \<newline>'',
     Text ''        5. Recommended Deployment Strategy:\<newline>'',
     Text ''           - Suggest the safest approach to deploy these changes\<newline>'',
     Text ''           - Recommend monitoring and rollback strategies\<newline>'',
     Text ''        \<newline>'',
     Text ''        '',
     Var ''extra_instructions'',
     Text ''\<newline>'',
     Text ''        '']"

text \<open>
  The expression of lines 133, 134, 243 and 244:
  \<^verbatim>\<open>S.pr_deployment_impact_prompt.F if hasattr(S, 'pr_deployment_impact_prompt') and
  hasattr(S.pr_deployment_impact_prompt, 'F') else default_F_prompt\<close>.
  The same text stands in the constructor and in \<^verbatim>\<open>_get_prediction\<close>; what differs
  is the function whose locals the name of the default is looked up in.
\<close>

definition select_prompt ::
  "string list \<Rightarrow> settings \<Rightarrow> (prompt_section \<Rightarrow> template option) \<Rightarrow> string \<Rightarrow> template
     \<Rightarrow> exn + template" where
  "select_prompt locals st field default_name default_value =
     (case pr_deployment_impact_prompt st of
        None \<Rightarrow> load_name locals default_name default_value
      | Some sec \<Rightarrow>
          (case field sec of
             None \<Rightarrow> load_name locals default_name default_value
           | Some t \<Rightarrow> Inr t))"

subsection \<open>Collaborators, their calls and the state\<close>

datatype call =
    GetFiles
  | PublishComment string bool
  | PublishPersistentComment string string bool string
  | RemoveInitialComment
  | GetPrDiff string
  | ChatCompletion string string string rat
  | Print string

datatype event = Returned call | Raised call exn

text \<open>What the constructor reads from the provider: lines 41 to 54, and lines 66 to 71.\<close>

record pr_context =
  main_language :: string
  pr_description :: string
  pr_description_files :: "string list"

record pr_metadata =
  title :: string
  branch :: string
  commit_messages_str :: string

record env =
  models :: "string list"
  retry_ceiling :: nat
  today :: string
  provider_context :: "string \<Rightarrow> exn + pr_context"
  add_ai_metadata_to_diff_files :: "string list \<Rightarrow> exn option"
  provider_metadata :: "string \<Rightarrow> exn + pr_metadata"
  get_files :: "event list \<Rightarrow> exn + string list"
  get_pr_diff :: "event list \<Rightarrow> string \<Rightarrow> exn + string"
  chat_completion :: "event list \<Rightarrow> string \<Rightarrow> string \<Rightarrow> string \<Rightarrow> rat \<Rightarrow> exn + string \<times> string"
  provider_raises :: "event list \<Rightarrow> call \<Rightarrow> exn option"

text \<open>
  The state a run works on: the process-wide settings object, the trace of calls made
  to the collaborators, and the attributes of \<^verbatim>\<open>self\<close>.
\<close>

record state =
  settings :: settings
  trace :: "event list"
  cli_mode :: bool
  vars :: analysis_context
  patches_diff :: "string option"
  prediction :: "string option"

definition log_event :: "event \<Rightarrow> state \<Rightarrow> state" where
  "log_event ev s = s\<lparr>trace := trace s @ [ev]\<rparr>"

text \<open>
  A call to the provider that returns nothing: \<^verbatim>\<open>publish_comment\<close>,
  \<^verbatim>\<open>publish_persistent_comment\<close>, \<^verbatim>\<open>remove_initial_comment\<close>; and
  \<^verbatim>\<open>print\<close>.
\<close>

definition provider_call :: "env \<Rightarrow> call \<Rightarrow> state \<Rightarrow> (exn + unit) \<times> state" where
  "provider_call E c s =
     (case provider_raises E (trace s) c of
        None \<Rightarrow> (Inr (), log_event (Returned c) s)
      | Some e \<Rightarrow> (Inl e, log_event (Raised c e) s))"

subsection \<open>The report formatter (lines 268 to 278)\<close>

definition report_header :: string where
  "report_header =
     ''# Deployment Impact Analysis ''
     @ [CHR 0xC3, CHR 0xB0, CHR 0xC5, CHR 0xB8, CHR 0xC5, CHR 0xA1, CHR 0xE2, CHR 0x82, CHR 0xAC]
     @ ''\<newline>\<newline>''"

text \<open>
  \<^verbatim>\<open>deployment_impact_analysis += self.prediction\<close> raises \<^verbatim>\<open>TypeError\<close> when
  the prediction is \<^verbatim>\<open>None\<close>.
\<close>

definition prepare_deployment_impact_analysis :: "state \<Rightarrow> exn + string" where
  "prepare_deployment_impact_analysis s =
     (case prediction s of
        None \<Rightarrow> Inl (OtherException ''can only concatenate str (not \"NoneType\") to str'')
      | Some p \<Rightarrow> Inr (report_header @ p))"

subsection \<open>The prediction step (lines 205 to 266)\<close>

definition get_prediction :: "env \<Rightarrow> string \<Rightarrow> state \<Rightarrow> (exn + string) \<times> state" where
  "get_prediction E model s0 =
     (let s = s0\<lparr>vars := (vars s0)(''diff'' \<mapsto> of_opt (patches_diff s0))\<rparr> in
      case select_prompt get_prediction_locals (settings s) system
             ''default_system_prompt'' default_system_prompt of
        Inl e \<Rightarrow> (Inl e, s)
      | Inr system_prompt \<Rightarrow>
      (case select_prompt get_prediction_locals (settings s) user
              ''default_user_prompt'' default_user_prompt of
        Inl e \<Rightarrow> (Inl e, s)
      | Inr user_prompt \<Rightarrow>
      (case render system_prompt (vars s) of
        Inl e \<Rightarrow> (Inl e, s)
      | Inr system_text \<Rightarrow>
      (case render user_prompt (vars s) of
        Inl e \<Rightarrow> (Inl e, s)
      | Inr user_text \<Rightarrow>
      (let c = ChatCompletion system_text user_text model (temperature (settings s)) in
       case chat_completion E (trace s) system_text user_text model (temperature (settings s)) of
         Inl e \<Rightarrow> (Inl e, log_event (Raised c e) s)
       | Inr (response, finish_reason) \<Rightarrow> (Inr response, log_event (Returned c) s))))))"

definition prepare_prediction :: "env \<Rightarrow> string \<Rightarrow> state \<Rightarrow> (exn + unit) \<times> state" where
  "prepare_prediction E model s =
     (case get_pr_diff E (trace s) model of
        Inl e \<Rightarrow> (Inl e, log_event (Raised (GetPrDiff model) e) s)
      | Inr d \<Rightarrow>
          (let s1 = (log_event (Returned (GetPrDiff model)) s)\<lparr>patches_diff := Some d\<rparr> in
           if d \<noteq> [] then
             (case get_prediction E model s1 of
                (Inl e, s2) \<Rightarrow> (Inl e, s2)
              | (Inr response, s2) \<Rightarrow> (Inr (), s2\<lparr>prediction := Some response\<rparr>))
           else (Inr (), s1\<lparr>prediction := None\<rparr>)))"

subsection \<open>The fallback controller\<close>

text \<open>
  Modelled from the spec: \<^verbatim>\<open>retry_with_fallback_models\<close> is imported from
  \<^verbatim>\<open>pr_agent.algo.pr_processing\<close>, which is not part of the sources. Following
  section 4.4 of the specification: the candidates are tried in order; the call for the
  current model is attempted; on success the controller returns; on
  \<open>TransientFailure\<close> the same model is retried, up to a fixed ceiling of attempts; when
  the retries are used up, or on any \<open>PermanentFailure\<close>, the controller advances to the
  next model; past the end of the list it is exhausted and returns normally, without a
  prediction. Any other exception is none of the two failure modes of the model call and
  crosses the controller unchanged (section 7). The ceiling \<open>retry_ceiling\<close> counts the
  attempts made for one model; the first attempt is always made.
\<close>

datatype attempt_outcome = AttemptSucceeded | NextModel

text \<open>\<open>try_model f m k\<close>: one attempt of \<open>f m\<close>, and up to \<open>k\<close> further attempts.\<close>

fun try_model ::
  "(string \<Rightarrow> state \<Rightarrow> (exn + unit) \<times> state) \<Rightarrow> string \<Rightarrow> nat \<Rightarrow> state
     \<Rightarrow> (exn + attempt_outcome) \<times> state" where
  "try_model f m k s =
     (case f m s of
        (Inr u, s') \<Rightarrow> (Inr AttemptSucceeded, s')
      | (Inl (TransientFailure msg), s') \<Rightarrow>
          (case k of 0 \<Rightarrow> (Inr NextModel, s') | Suc j \<Rightarrow> try_model f m j s')
      | (Inl (PermanentFailure msg), s') \<Rightarrow> (Inr NextModel, s')
      | (Inl e, s') \<Rightarrow> (Inl e, s'))"

text \<open>The terminal states of the controller (section 4.4).\<close>

datatype controller_state = Succeeded | Exhausted

fun fallback ::
  "(string \<Rightarrow> state \<Rightarrow> (exn + unit) \<times> state) \<Rightarrow> nat \<Rightarrow> string list \<Rightarrow> state
     \<Rightarrow> (exn + controller_state) \<times> state" where
  "fallback f cap [] s = (Inr Exhausted, s)"
| "fallback f cap (m # ms) s =
     (case try_model f m (cap - 1) s of
        (Inr AttemptSucceeded, s') \<Rightarrow> (Inr Succeeded, s')
      | (Inr NextModel, s') \<Rightarrow> fallback f cap ms s'
      | (Inl e, s') \<Rightarrow> (Inl e, s'))"

text \<open>
  In either terminal state the controller returns normally to its caller, which sees
  no difference but in the prediction the calls have left.
\<close>

definition retry_with_fallback_models ::
  "env \<Rightarrow> (string \<Rightarrow> state \<Rightarrow> (exn + unit) \<times> state) \<Rightarrow> state \<Rightarrow> (exn + unit) \<times> state" where
  "retry_with_fallback_models E f s =
     (case fallback f (retry_ceiling E) (models E) s of
        (Inl e, s') \<Rightarrow> (Inl e, s')
      | (Inr outcome, s') \<Rightarrow> (Inr (), s'))"

subsection \<open>The orchestrator (lines 146 to 203)\<close>

definition progress :: string where
  "progress =
     ''## Analyzing Deployment Impact\<newline>\<newline>''
     @ ''\<newline>Work in progress ...<br>\<newline><img src=\"https://codium.ai/images/pr_agent/dual_ball_loading-crop.gif\" width=48>''"

definition initial_header :: string where
  "initial_header =
     ''## Deployment Impact Analysis ''
     @ [CHR 0xC3, CHR 0xB0, CHR 0xC5, CHR 0xB8, CHR 0xC5, CHR 0xA1, CHR 0xE2, CHR 0x82, CHR 0xAC]"

definition failure_notice :: string where
  "failure_notice = ''Failed to analyze deployment impact. See logs for more details.''"

text \<open>Line 173: the persistent-comment switch; line 174: the final update message.\<close>

definition persistent_comment_enabled :: "settings \<Rightarrow> bool" where
  "persistent_comment_enabled st =
     (case pr_deployment_impact st of
        None \<Rightarrow> False
      | Some sec \<Rightarrow> (case persistent_comment sec of None \<Rightarrow> False | Some b \<Rightarrow> b))"

definition final_update_message_of :: "settings \<Rightarrow> string" where
  "final_update_message_of st =
     (case pr_deployment_impact st of
        None \<Rightarrow> []
      | Some sec \<Rightarrow> (case final_update_message sec of None \<Rightarrow> [] | Some m \<Rightarrow> m))"

text \<open>The one call that publishes the report (lines 173 to 182).\<close>

definition publish_call :: "settings \<Rightarrow> string \<Rightarrow> call" where
  "publish_call st report =
     (if persistent_comment_enabled st
      then PublishPersistentComment report initial_header True (final_update_message_of st)
      else PublishComment report False)"

text \<open>Lines 167 to 191: format the report, then publish it or hand it over.\<close>

definition run_publish :: "env \<Rightarrow> state \<Rightarrow> (exn + string option) \<times> state" where
  "run_publish E s =
     (case prepare_deployment_impact_analysis s of
        Inl e \<Rightarrow> (Inl e, s)
      | Inr deployment_impact_analysis \<Rightarrow>
          if publish_output (settings s) then
            (case provider_call E (publish_call (settings s) deployment_impact_analysis) s of
               (Inl e, s1) \<Rightarrow> (Inl e, s1)
             | (Inr u, s1) \<Rightarrow>
                 (case provider_call E RemoveInitialComment s1 of
                    (Inl e, s2) \<Rightarrow> (Inl e, s2)
                  | (Inr v, s2) \<Rightarrow> (Inr None, s2)))
          else
            (let s1 = s\<lparr>settings := (settings s)
                        \<lparr>data := Some [''artifact'' \<mapsto> deployment_impact_analysis]\<rparr>\<rparr> in
             if cli_mode s1 then
               (case provider_call E (Print deployment_impact_analysis) s1 of
                  (Inl e, s2) \<Rightarrow> (Inl e, s2)
                | (Inr u, s2) \<Rightarrow> (Inr None, s2))
             else (Inr None, s1)))"

text \<open>Lines 161 to 191: the prediction step and what follows it.\<close>

definition run_predict :: "env \<Rightarrow> state \<Rightarrow> (exn + string option) \<times> state" where
  "run_predict E s =
     (case retry_with_fallback_models E (prepare_prediction E) s of
        (Inl e, s1) \<Rightarrow> (Inl e, s1)
      | (Inr u, s1) \<Rightarrow>
          if \<not> truthy (of_opt (prediction s1)) then
            (case provider_call E RemoveInitialComment s1 of
               (Inl e, s2) \<Rightarrow> (Inl e, s2)
             | (Inr v, s2) \<Rightarrow> (Inr None, s2))
          else run_publish E s1)"

text \<open>Lines 151 to 191: the body of the \<^verbatim>\<open>try\<close> statement.\<close>

definition run_try :: "env \<Rightarrow> state \<Rightarrow> (exn + string option) \<times> state" where
  "run_try E s =
     (case get_files E (trace s) of
        Inl e \<Rightarrow> (Inl e, log_event (Raised GetFiles e) s)
      | Inr files \<Rightarrow>
          (let s0 = log_event (Returned GetFiles) s in
           if files = [] then (Inr None, s0)
           else if publish_output (settings s0) then
             (case provider_call E (PublishComment progress True) s0 of
                (Inl e, s1) \<Rightarrow> (Inl e, s1)
              | (Inr u, s1) \<Rightarrow> run_predict E s1)
           else run_predict E s0))"

text \<open>
  Lines 194 to 203: the handler. The inner \<^verbatim>\<open>try\<close> has a bare \<^verbatim>\<open>except: pass\<close>,
  so whatever the notice or the removal raises is dropped; the removal stands after the
  notice inside that \<^verbatim>\<open>try\<close>, so it is not reached when the notice raises.
\<close>

definition run_except :: "env \<Rightarrow> state \<Rightarrow> state" where
  "run_except E s =
     (if publish_output (settings s) then
        (case provider_call E (PublishComment failure_notice False) s of
           (Inl e, s1) \<Rightarrow> s1
         | (Inr u, s1) \<Rightarrow> snd (provider_call E RemoveInitialComment s1))
      else s)"

text \<open>
  \<^verbatim>\<open>run\<close>: \<^verbatim>\<open>except Exception\<close> catches what \<open>is_Exception\<close> holds of; after the
  handler the function falls off its end and returns \<^verbatim>\<open>None\<close>. The result is the
  value returned (\<open>None\<close> for Python's \<^verbatim>\<open>None\<close>) or the exception that leaves \<^verbatim>\<open>run\<close>.
\<close>

definition run :: "env \<Rightarrow> state \<Rightarrow> (exn + string option) \<times> state" where
  "run E s =
     (case run_try E s of
        (Inr r, s1) \<Rightarrow> (Inr r, s1)
      | (Inl e, s1) \<Rightarrow> if is_Exception e then (Inr None, run_except E s1) else (Inl e, s1))"

subsection \<open>The constructor (lines 31 to 144)\<close>

text \<open>
  The constructor reads the provider (lines 41 to 54), decides on the AI metadata (lines
  56 to 62), fills the context (lines 65 to 78) and resolves the two templates (lines 133
  and 134) for the token handler. The token handler itself is outside the model.
\<close>

definition extra_instructions_of :: "settings \<Rightarrow> string" where
  "extra_instructions_of st =
     (case pr_deployment_impact st of
        None \<Rightarrow> []
      | Some sec \<Rightarrow> (case extra_instructions sec of None \<Rightarrow> [] | Some x \<Rightarrow> x))"

definition init_vars :: "env \<Rightarrow> settings \<Rightarrow> pr_context \<Rightarrow> pr_metadata \<Rightarrow> analysis_context" where
  "init_vars E st pc md =
     [''title'' \<mapsto> PyStr (title md),
      ''branch'' \<mapsto> PyStr (branch md),
      ''description'' \<mapsto> PyStr (pr_description pc),
      ''language'' \<mapsto> PyStr (main_language pc),
      ''diff'' \<mapsto> PyStr [],
      ''commit_messages_str'' \<mapsto> PyStr (commit_messages_str md),
      ''extra_instructions'' \<mapsto> PyStr (extra_instructions_of st),
      ''is_ai_metadata'' \<mapsto> PyBool (enable_ai_metadata st),
      ''date'' \<mapsto> PyStr (today E)]"

text \<open>Lines 56 to 62.\<close>

definition init_ai_metadata :: "env \<Rightarrow> pr_context \<Rightarrow> state \<Rightarrow> (exn + unit) \<times> state" where
  "init_ai_metadata E pc s =
     (if pr_description_files pc \<noteq> [] \<and> is_auto_command (settings s)
         \<and> enable_ai_metadata (settings s)
      then (case add_ai_metadata_to_diff_files E (pr_description_files pc) of
              None \<Rightarrow> (Inr (), s)
            | Some e \<Rightarrow> (Inl e, s))
      else (Inr (), s\<lparr>settings := (settings s)\<lparr>enable_ai_metadata := False\<rparr>\<rparr>))"

definition PRDeploymentImpact_init ::
  "env \<Rightarrow> string \<Rightarrow> bool \<Rightarrow> state \<Rightarrow> (exn + unit) \<times> state" where
  "PRDeploymentImpact_init E url cli s =
     (case provider_context E url of
        Inl e \<Rightarrow> (Inl e, s)
      | Inr pc \<Rightarrow>
      (case init_ai_metadata E pc (s\<lparr>patches_diff := None, prediction := None, cli_mode := cli\<rparr>) of
        (Inl e, s1) \<Rightarrow> (Inl e, s1)
      | (Inr u, s1) \<Rightarrow>
      (case provider_metadata E url of
        Inl e \<Rightarrow> (Inl e, s1)
      | Inr md \<Rightarrow>
      (let s2 = s1\<lparr>vars := init_vars E (settings s1) pc md\<rparr> in
       case select_prompt init_locals (settings s2) system
              ''default_system_prompt'' default_system_prompt of
         Inl e \<Rightarrow> (Inl e, s2)
       | Inr system_prompt \<Rightarrow>
       (case select_prompt init_locals (settings s2) user
               ''default_user_prompt'' default_user_prompt of
         Inl e \<Rightarrow> (Inl e, s2)
       | Inr user_prompt \<Rightarrow> (Inr (), s2))))))"

subsection \<open>The HTTP endpoint (\<^verbatim>\<open>web_app/app.py\<close>, lines 39 to 69)\<close>

definition no_result :: string where
  "no_result = ''No analysis result available''"

definition run_analysis :: "env \<Rightarrow> state \<Rightarrow> (exn + string) \<times> state" where
  "run_analysis E s =
     (case run E s of
        (Inl e, s1) \<Rightarrow> (Inl e, s1)
      | (Inr r, s1) \<Rightarrow>
          (case data (settings s1) of
             None \<Rightarrow> (Inr no_result, s1)
           | Some d \<Rightarrow>
               (case d ''artifact'' of
                  None \<Rightarrow> (Inr no_result, s1)
                | Some artifact \<Rightarrow> (Inr artifact, s1))))"

text \<open>
  The body of a response and its status; \<^verbatim>\<open>jsonify\<close> without a status answers 200.

  A request is what evaluating \<^verbatim>\<open>request.json\<close> (line 41) gives: the exception it
  raises (the framework rejects a body that is not JSON or not declared as JSON), or the
  parsed body, a JSON value. The values inside a JSON object are taken to be strings.
  Lines 41 and 42 stand before the \<^verbatim>\<open>try\<close> of line 47, so what they raise leaves
  the endpoint; \<^verbatim>\<open>data.get\<close> raises \<^verbatim>\<open>AttributeError\<close> on every parsed body that
  is not an object. The result of the endpoint is the response, or the exception that
  leaves it.
\<close>

datatype payload = JsonResult string | JsonError string

datatype json_body =
    JsonNull
  | JsonBool bool
  | JsonInt int
  | JsonFloat rat
  | JsonString string
  | JsonArray
  | JsonObject "string \<rightharpoonup> string"

definition attribute_error :: "string \<Rightarrow> string \<Rightarrow> exn" where
  "attribute_error type_name attr =
     OtherException ([CHR 0x27] @ type_name @ [CHR 0x27] @ '' object has no attribute ''
                     @ [CHR 0x27] @ attr @ [CHR 0x27])"

text \<open>\<^verbatim>\<open>data.get(key)\<close>, line 42.\<close>

fun json_get :: "json_body \<Rightarrow> string \<Rightarrow> exn + string option" where
  "json_get (JsonObject d) key = Inr (d key)"
| "json_get JsonNull key = Inl (attribute_error ''NoneType'' ''get'')"
| "json_get (JsonBool b) key = Inl (attribute_error ''bool'' ''get'')"
| "json_get (JsonInt i) key = Inl (attribute_error ''int'' ''get'')"
| "json_get (JsonFloat x) key = Inl (attribute_error ''float'' ''get'')"
| "json_get (JsonString t) key = Inl (attribute_error ''str'' ''get'')"
| "json_get JsonArray key = Inl (attribute_error ''list'' ''get'')"

definition api_analyze ::
  "env \<Rightarrow> exn + json_body \<Rightarrow> state \<Rightarrow> (exn + payload \<times> nat) \<times> state" where
  "api_analyze E request_json s =
     (case request_json of
        Inl e \<Rightarrow> (Inl e, s)
      | Inr body \<Rightarrow>
      (case json_get body ''pr_url'' of
        Inl e \<Rightarrow> (Inl e, s)
      | Inr pr_url \<Rightarrow>
          if \<not> truthy (of_opt pr_url)
          then (Inr (JsonError ''PR URL is required'', 400), s)
          else
            (let url = (case pr_url of None \<Rightarrow> [] | Some u \<Rightarrow> u);
                 s1 = s\<lparr>settings := (settings s)\<lparr>publish_output := False\<rparr>\<rparr> in
             case (case PRDeploymentImpact_init E url True s1 of
                     (Inl e, s2) \<Rightarrow> (Inl e, s2)
                   | (Inr u, s2) \<Rightarrow> run_analysis E s2) of
               (Inr result, s3) \<Rightarrow> (Inr (JsonResult result, 200), s3)
             | (Inl e, s3) \<Rightarrow>
                 if is_Exception e then (Inr (JsonError (str_exn e), 500), s3)
                 else (Inl e, s3))))"

subsection \<open>Observing a run\<close>

fun call_of :: "event \<Rightarrow> call" where
  "call_of (Returned c) = c"
| "call_of (Raised c e) = c"

text \<open>The calls of the prediction step: the diff budgeter and the completion client.\<close>

fun is_model_call :: "call \<Rightarrow> bool" where
  "is_model_call (GetPrDiff m) = True"
| "is_model_call (ChatCompletion sy us m t) = True"
| "is_model_call c = False"

definition model_events :: "event list \<Rightarrow> bool" where
  "model_events evs = list_all (\<lambda>ev. is_model_call (call_of ev)) evs"

text \<open>
  \<open>extends s s'\<close>: from \<open>s\<close> to \<open>s'\<close> the settings and the CLI flag are unchanged, and
  the trace has grown by calls of the prediction step only.
\<close>

definition extends :: "state \<Rightarrow> state \<Rightarrow> bool" where
  "extends s s' =
     (settings s' = settings s \<and> cli_mode s' = cli_mode s
      \<and> take (length (trace s)) (trace s') = trace s
      \<and> model_events (drop (length (trace s)) (trace s')))"

text \<open>
  The state when the prediction step begins (line 162), on a run whose file list is not
  empty and whose provisional comment, if publishing is enabled, was posted.
\<close>

definition after_start :: "state \<Rightarrow> state" where
  "after_start s =
     (if publish_output (settings s)
      then s\<lparr>trace := trace s @ [Returned GetFiles, Returned (PublishComment progress True)]\<rparr>
      else s\<lparr>trace := trace s @ [Returned GetFiles]\<rparr>)"

text \<open>What \<^verbatim>\<open>run_analysis\<close> reads back from the settings (lines 66 to 69 of the endpoint).\<close>

definition stored_artifact :: "settings \<Rightarrow> string" where
  "stored_artifact st =
     (case data st of
        None \<Rightarrow> no_result
      | Some d \<Rightarrow> (case d ''artifact'' of None \<Rightarrow> no_result | Some artifact \<Rightarrow> artifact))"

text \<open>The state the endpoint hands to the constructor: publishing is switched off (line 49).\<close>

definition unpublishing :: "state \<Rightarrow> state" where
  "unpublishing s = s\<lparr>settings := (settings s)\<lparr>publish_output := False\<rparr>\<rparr>"



subsection \<open>Example runs\<close>

text \<open>
  A pull request titled \<^verbatim>\<open>Add cache layer\<close> with one changed file and a diff under
  budget, two candidate models of which the first answers \<^verbatim>\<open>Risk: Low\<close>, a provider
  whose calls all return, and settings that supply both templates.
\<close>

definition example_settings :: settings where
  "example_settings =
     \<lparr>publish_output = True, temperature = 0, is_auto_command = False,
      enable_ai_metadata = True, pr_deployment_impact = None,
      pr_deployment_impact_prompt =
        Some \<lparr>system = Some [Text ''You analyze deployments.''],
              user = Some [Text ''Title: '', Var ''title'', Text ''\<newline>'', Var ''diff'']\<rparr>,
      data = None\<rparr>"

definition example_env :: env where
  "example_env =
     \<lparr>models = [''primary'', ''backup''], retry_ceiling = 2, today = ''2024-05-01'',
      provider_context = (\<lambda>url. Inr \<lparr>main_language = ''Python'', pr_description = ''Adds a cache'',
                                       pr_description_files = []\<rparr>),
      add_ai_metadata_to_diff_files = (\<lambda>files. None),
      provider_metadata = (\<lambda>url. Inr \<lparr>title = ''Add cache layer'', branch = ''feature/cache'',
                                        commit_messages_str = ''1. add cache''\<rparr>),
      get_files = (\<lambda>h. Inr [''cache.py'']),
      get_pr_diff = (\<lambda>h model. Inr ''+cache = {}''),
      chat_completion = (\<lambda>h sys usr model t. Inr (''Risk: Low'', ''stop'')),
      provider_raises = (\<lambda>h c. None)\<rparr>"

definition example_state :: state where
  "example_state =
     \<lparr>settings = example_settings, trace = [], cli_mode = False,
      vars = [''title'' \<mapsto> PyStr ''Add cache layer'', ''diff'' \<mapsto> PyStr []],
      patches_diff = None, prediction = None\<rparr>"

text \<open>Variations: settings, providers and models that differ from the example in one place.\<close>

definition default_config_state :: state where
  "default_config_state =
     example_state\<lparr>settings := example_settings\<lparr>pr_deployment_impact_prompt := None\<rparr>\<rparr>"

definition missing_variable_state :: state where
  "missing_variable_state =
     example_state\<lparr>settings := example_settings
       \<lparr>pr_deployment_impact_prompt :=
          Some \<lparr>system = Some [Text ''You analyze deployments.''],
                user = Some [Text ''Ticket: '', Var ''ticket'']\<rparr>\<rparr>\<rparr>"

definition unpublished_state :: state where
  "unpublished_state =
     example_state\<lparr>settings := example_settings\<lparr>publish_output := False\<rparr>, cli_mode := True\<rparr>"

definition stale_state :: state where
  "stale_state = example_state\<lparr>prediction := Some ''Risk: High''\<rparr>"

definition persistent_state :: state where
  "persistent_state =
     example_state\<lparr>settings := example_settings
       \<lparr>pr_deployment_impact :=
          Some \<lparr>extra_instructions = None, persistent_comment = Some True,
                final_update_message = Some ''Analysis updated''\<rparr>\<rparr>\<rparr>"

definition no_files_env :: env where
  "no_files_env = example_env\<lparr>get_files := (\<lambda>h. Inr [])\<rparr>"

definition empty_diff_env :: env where
  "empty_diff_env = example_env\<lparr>get_pr_diff := (\<lambda>h model. Inr [])\<rparr>"

definition failing_models_env :: env where
  "failing_models_env =
     example_env\<lparr>chat_completion := (\<lambda>h sys usr model t.
        if model = ''primary'' then Inl (TransientFailure ''timeout'')
        else Inl (PermanentFailure ''unsupported model''))\<rparr>"

definition comments_rejected_env :: env where
  "comments_rejected_env =
     example_env\<lparr>provider_raises := (\<lambda>h c.
        case c of
          PublishComment text is_temporary \<Rightarrow>
            if is_temporary then None else Some (OtherException ''403 Forbidden'')
        | _ \<Rightarrow> None)\<rparr>"

definition removal_fails_env :: env where
  "removal_fails_env =
     empty_diff_env\<lparr>provider_raises := (\<lambda>h c.
        case c of
          RemoveInitialComment \<Rightarrow> Some (OtherException ''404 Not Found'')
        | _ \<Rightarrow> None)\<rparr>"

definition unreachable_env :: env where
  "unreachable_env =
     example_env\<lparr>provider_context := (\<lambda>url. Inl (OtherException ''repository not found''))\<rparr>"

definition example_request :: "exn + json_body" where
  "example_request = Inr (JsonObject [''pr_url'' \<mapsto> ''https://example.org/pull/1''])"

section \<open>Properties\<close>

subsection \<open>The report formatter\<close>

text \<open>
  C1 (statement that holds). For every prediction text \<open>p\<close>, the report produced by
  \<^verbatim>\<open>_prepare_deployment_impact_analysis\<close> is the fixed header followed by \<open>p\<close> and
  nothing else, where the fixed header is the text \<^verbatim>\<open># Deployment Impact Analysis\<close>,
  a space, the four characters U+00F0 U+0178 U+0161 U+20AC that stand in the source
  (nine bytes in UTF-8), and two newlines. When the model returns \<^verbatim>\<open>Risk: Low\<close> the
  report is that header followed by \<^verbatim>\<open>Risk: Low\<close>.
\<close>

theorem report_is_header_then_prediction:
  "prepare_deployment_impact_analysis (s\<lparr>prediction := Some p\<rparr>) =
     Inr (''# Deployment Impact Analysis ''
          @ [CHR 0xC3, CHR 0xB0, CHR 0xC5, CHR 0xB8, CHR 0xC5, CHR 0xA1, CHR 0xE2, CHR 0x82, CHR 0xAC]
          @ ''\<newline>\<newline>'' @ p)"
  by (simp add: prepare_deployment_impact_analysis_def report_header_def)

text \<open>
  C1 as stated fails: with the prediction \<^verbatim>\<open>Risk: Low\<close> the report is not the text
  \<^verbatim>\<open># Deployment Impact Analysis\<close>, two newlines, \<^verbatim>\<open>Risk: Low\<close>: the header of the
  code has a space and four more characters before the newlines.
\<close>

theorem report_risk_low_counterexample:
  "prepare_deployment_impact_analysis
     \<lparr>settings = \<lparr>publish_output = True, temperature = 0, is_auto_command = False,
                  enable_ai_metadata = False, pr_deployment_impact = None,
                  pr_deployment_impact_prompt = None, data = None\<rparr>,
      trace = [], cli_mode = False, vars = Map.empty, patches_diff = Some ''d'',
      prediction = Some ''Risk: Low''\<rparr>
   \<noteq> Inr (''# Deployment Impact Analysis'' @ ''\<newline>\<newline>'' @ ''Risk: Low'')"
  by (simp add: prepare_deployment_impact_analysis_def report_header_def)

subsection \<open>Evaluating the definitions\<close>

lemmas run_defs =
  run_def run_try_def run_predict_def run_publish_def run_except_def provider_call_def
  log_event_def retry_with_fallback_models_def prepare_prediction_def get_prediction_def
  select_prompt_def load_name_def of_opt_def prepare_deployment_impact_analysis_def
  publish_call_def persistent_comment_enabled_def final_update_message_of_def after_start_def

lemmas example_defs =
  example_settings_def example_env_def example_state_def
  default_config_state_def missing_variable_state_def unpublished_state_def no_files_env_def
  empty_diff_env_def failing_models_env_def comments_rejected_env_def unreachable_env_def
  example_request_def stale_state_def removal_fails_env_def
  persistent_state_def

subsection \<open>The default templates are out of scope in the prediction step\<close>

text \<open>
  C2. Whenever the settings have no \<^verbatim>\<open>pr_deployment_impact_prompt\<close> section,
  \<^verbatim>\<open>_get_prediction\<close> raises \<^verbatim>\<open>NameError\<close> for \<^verbatim>\<open>default_system_prompt\<close>: the
  name is a local of the constructor and is no local of \<^verbatim>\<open>_get_prediction\<close>, no module
  global and no builtin. The state it leaves differs from the one it was given in the
  \<^verbatim>\<open>diff\<close> entry of the context only: the trace is unchanged, so no call to the model
  was made. Hence the prediction step for any model, \<^verbatim>\<open>_prepare_prediction\<close>, fails
  with that \<^verbatim>\<open>NameError\<close> whenever the diff is not empty, having called the diff
  budgeter and nothing else.
\<close>

theorem get_prediction_default_templates_NameError:
  assumes "pr_deployment_impact_prompt (settings s) = None"
  shows "get_prediction E model s =
           (Inl (NameError ''default_system_prompt''),
            s\<lparr>vars := (vars s)(''diff'' \<mapsto> of_opt (patches_diff s))\<rparr>)
         \<and> (get_pr_diff E (trace s) model = Inr d \<and> d \<noteq> [] \<longrightarrow>
              fst (prepare_prediction E model s) = Inl (NameError ''default_system_prompt'')
              \<and> trace (snd (prepare_prediction E model s))
                  = trace s @ [Returned (GetPrDiff model)])"
proof -
  have g: "get_prediction E model s' =
           (Inl (NameError ''default_system_prompt''),
            s'\<lparr>vars := (vars s')(''diff'' \<mapsto> of_opt (patches_diff s'))\<rparr>)"
    if "pr_deployment_impact_prompt (settings s') = None" for s'
    using that
    by (simp add: get_prediction_def select_prompt_def load_name_def
          get_prediction_locals_def module_globals_def builtin_names_def)
  have p: "fst (prepare_prediction E model s) = Inl (NameError ''default_system_prompt'')
           \<and> trace (snd (prepare_prediction E model s)) = trace s @ [Returned (GetPrDiff model)]"
    if d: "get_pr_diff E (trace s) model = Inr d \<and> d \<noteq> []"
  proof -
    let ?s1 = "(log_event (Returned (GetPrDiff model)) s)\<lparr>patches_diff := Some d\<rparr>"
    have "pr_deployment_impact_prompt (settings ?s1) = None"
      using assms by (simp add: log_event_def)
    from g[OF this] d show ?thesis
      by (simp add: prepare_prediction_def Let_def log_event_def)
  qed
  from g[OF assms] p show ?thesis by blast
qed

theorem get_prediction_default_templates_NameError_witness:
  "pr_deployment_impact_prompt (settings default_config_state) = None
   \<and> get_prediction example_env ''primary'' default_config_state
       = (Inl (NameError ''default_system_prompt''),
          default_config_state
            \<lparr>vars := (vars default_config_state)
                      (''diff'' \<mapsto> of_opt (patches_diff default_config_state))\<rparr>)
   \<and> fst (prepare_prediction example_env ''primary'' default_config_state)
       = Inl (NameError ''default_system_prompt'')
   \<and> trace (snd (prepare_prediction example_env ''primary'' default_config_state))
       = trace default_config_state @ [Returned (GetPrDiff ''primary'')]"
proof -
  have h: "pr_deployment_impact_prompt (settings default_config_state) = None"
    by (simp add: example_defs)
  have d: "get_pr_diff example_env (trace default_config_state) ''primary'' = Inr ''+cache = {}''
           \<and> ''+cache = {}'' \<noteq> []"
    by (simp add: example_defs)
  from h d get_prediction_default_templates_NameError
         [OF h, where E = example_env and model = "''primary''" and d = "''+cache = {}''"]
  show ?thesis by blast
qed

subsection \<open>Strict rendering\<close>

lemma render_missing:
  "X \<in> set (referenced t) \<Longrightarrow> ctx X = None \<Longrightarrow>
     \<exists>Y. Y \<in> set (referenced t) \<and> ctx Y = None \<and> render t ctx = Inl (TemplateRenderError Y)"
proof (induction t ctx rule: render.induct)
  case (1 ctx)
  then show ?case by simp
next
  case (2 t rest ctx)
  then show ?case by auto
next
  case (3 x rest ctx)
  show ?case
  proof (cases "ctx x")
    case None
    then show ?thesis by auto
  next
    case (Some v)
    with 3 have "X \<in> set (referenced rest)" by auto
    with 3 Some obtain Y where "Y \<in> set (referenced rest)" "ctx Y = None"
      "render rest ctx = Inl (TemplateRenderError Y)" by blast
    with Some show ?thesis by auto
  qed
qed

lemma render_complete:
  "\<forall>X \<in> set (referenced t). ctx X = Some (val X) \<Longrightarrow> render t ctx = Inr (substitute val t)"
  by (induction t ctx rule: render.induct) auto

lemma render_raises_only_TemplateRenderError:
  "render t ctx = Inl e \<Longrightarrow> \<exists>Y. e = TemplateRenderError Y"
  by (induction t ctx rule: render.induct) (auto split: sum.splits option.splits)

text \<open>
  C5. Rendering a template that refers to a variable \<open>X\<close> against a context without
  \<open>X\<close> fails with \<open>TemplateRenderError\<close>, naming a variable the template refers to and
  the context lacks; nothing is substituted for it. Rendering against a context that has
  every variable the template refers to does not fail, and its output is the template
  with each placeholder replaced by the printed value of its variable, so no placeholder
  is left. In \<^verbatim>\<open>_get_prediction\<close> (lines 246 to 256) such a failure of either template
  is raised again to the caller, before any call to the model.
\<close>

theorem render_strict:
  "(X \<in> set (referenced t) \<and> ctx X = None \<longrightarrow>
      (\<exists>Y. Y \<in> set (referenced t) \<and> ctx Y = None \<and> render t ctx = Inl (TemplateRenderError Y)))
   \<and> ((\<forall>X \<in> set (referenced t). ctx X = Some (val X)) \<longrightarrow>
        render t ctx = Inr (substitute val t))
   \<and> (pr_deployment_impact_prompt (settings s) = Some \<lparr>system = Some ts, user = Some tu\<rparr>
        \<and> X \<in> set (referenced ts) \<union> set (referenced tu) \<and> X \<noteq> ''diff'' \<and> vars s X = None \<longrightarrow>
        (\<exists>Y. get_prediction E model s =
               (Inl (TemplateRenderError Y),
                s\<lparr>vars := (vars s)(''diff'' \<mapsto> of_opt (patches_diff s))\<rparr>)))"
proof (intro conjI impI)
  assume "X \<in> set (referenced t) \<and> ctx X = None"
  then show "\<exists>Y. Y \<in> set (referenced t) \<and> ctx Y = None \<and> render t ctx = Inl (TemplateRenderError Y)"
    using render_missing by blast
next
  assume "\<forall>X \<in> set (referenced t). ctx X = Some (val X)"
  then show "render t ctx = Inr (substitute val t)" by (rule render_complete)
next
  let ?ctx = "(vars s)(''diff'' \<mapsto> of_opt (patches_diff s))"
  let ?s = "s\<lparr>vars := ?ctx\<rparr>"
  assume a: "pr_deployment_impact_prompt (settings s) = Some \<lparr>system = Some ts, user = Some tu\<rparr>
        \<and> X \<in> set (referenced ts) \<union> set (referenced tu) \<and> X \<noteq> ''diff'' \<and> vars s X = None"
  then have none: "?ctx X = None" by simp
  have sel: "select_prompt get_prediction_locals (settings ?s) system
               ''default_system_prompt'' default_system_prompt = Inr ts"
       "select_prompt get_prediction_locals (settings ?s) user
               ''default_user_prompt'' default_user_prompt = Inr tu"
    using a by (simp_all add: select_prompt_def)
  show "\<exists>Y. get_prediction E model s = (Inl (TemplateRenderError Y), ?s)"
  proof (cases "render ts ?ctx")
    case (Inl e)
    then obtain Y where "e = TemplateRenderError Y"
      using render_raises_only_TemplateRenderError by blast
    with Inl sel show ?thesis by (simp add: get_prediction_def Let_def)
  next
    case (Inr out)
    have "X \<notin> set (referenced ts)"
    proof
      assume "X \<in> set (referenced ts)"
      with none obtain Y where "render ts ?ctx = Inl (TemplateRenderError Y)"
        using render_missing by blast
      with Inr show False by simp
    qed
    with a have "X \<in> set (referenced tu)" by simp
    with none obtain Y where "render tu ?ctx = Inl (TemplateRenderError Y)"
      using render_missing by blast
    with Inr sel show ?thesis by (simp add: get_prediction_def Let_def)
  qed
qed

theorem render_strict_witness:
  "render [Text ''Title: '', Var ''title''] Map.empty = Inl (TemplateRenderError ''title'')
   \<and> render [Text ''Title: '', Var ''title''] [''title'' \<mapsto> PyStr ''Add cache layer'']
       = Inr ''Title: Add cache layer''
   \<and> fst (get_prediction example_env ''primary'' missing_variable_state)
       = Inl (TemplateRenderError ''ticket'')"
proof -
  let ?t = "[Text ''Title: '', Var ''title'']"
  let ?ctx = "[''title'' \<mapsto> PyStr ''Add cache layer'']"
  have a: "''title'' \<in> set (referenced ?t) \<and> Map.empty ''title'' = (None :: pyval option)"
    by simp
  have b: "\<forall>X \<in> set (referenced ?t). ?ctx X = Some ((\<lambda>x. PyStr ''Add cache layer'') X)"
    by simp
  have c: "pr_deployment_impact_prompt (settings missing_variable_state)
             = Some \<lparr>system = Some [Text ''You analyze deployments.''],
                     user = Some [Text ''Ticket: '', Var ''ticket'']\<rparr>
           \<and> ''ticket'' \<in> set (referenced [Text ''You analyze deployments.''])
                            \<union> set (referenced [Text ''Ticket: '', Var ''ticket''])
           \<and> ''ticket'' \<noteq> ''diff'' \<and> vars missing_variable_state ''ticket'' = None"
    by (simp add: example_defs)
  have 1: "render ?t Map.empty = Inl (TemplateRenderError ''title'')"
    using a render_strict [of "''title''" ?t Map.empty] by auto
  have 2: "render ?t ?ctx = Inr ''Title: Add cache layer''"
    using b render_strict [of _ ?t ?ctx "\<lambda>x. PyStr ''Add cache layer''"] by simp
  have 3: "fst (get_prediction example_env ''primary'' missing_variable_state)
             = Inl (TemplateRenderError ''ticket'')"
    using c render_strict [of "''ticket''" _ _ _ missing_variable_state
            "[Text ''You analyze deployments.'']" "[Text ''Ticket: '', Var ''ticket'']"
            example_env "''primary''"]
    by (simp add: example_defs run_defs)
  from 1 2 3 show ?thesis by simp
qed

subsection \<open>A pull request without changed files\<close>

text \<open>
  C7. When the list of changed files is empty, \<^verbatim>\<open>run\<close> returns \<^verbatim>\<open>None\<close> without
  raising, and the only call it has made is the one that fetched the files: no provisional
  comment, no call to the model, nothing published; the settings are unchanged.
\<close>

theorem run_no_files:
  "get_files E (trace s) = Inr [] \<Longrightarrow>
     run E s = (Inr None, s\<lparr>trace := trace s @ [Returned GetFiles]\<rparr>)"
  by (simp add: run_def run_try_def log_event_def)

theorem run_no_files_witness:
  "get_files no_files_env (trace example_state) = Inr []
   \<and> run no_files_env example_state = (Inr None, example_state\<lparr>trace := [Returned GetFiles]\<rparr>)"
proof -
  have h: "get_files no_files_env (trace example_state) = Inr []"
    by (simp add: example_defs)
  show ?thesis using h run_no_files [OF h] by (simp add: example_defs)
qed

subsection \<open>What the prediction step touches\<close>

lemma extends_iff:
  "extends s s' \<longleftrightarrow>
     settings s' = settings s \<and> cli_mode s' = cli_mode s
     \<and> (\<exists>evs. trace s' = trace s @ evs \<and> model_events evs)"
proof
  assume e: "extends s s'"
  then have "trace s' = trace s @ drop (length (trace s)) (trace s')"
    by (metis append_take_drop_id extends_def)
  with e show "settings s' = settings s \<and> cli_mode s' = cli_mode s
     \<and> (\<exists>evs. trace s' = trace s @ evs \<and> model_events evs)"
    unfolding extends_def by blast
next
  assume "settings s' = settings s \<and> cli_mode s' = cli_mode s
     \<and> (\<exists>evs. trace s' = trace s @ evs \<and> model_events evs)"
  then show "extends s s'" by (auto simp: extends_def)
qed

lemma extends_refl: "extends s s"
  by (simp add: extends_iff model_events_def)

lemma extends_trans: "extends a b \<Longrightarrow> extends b c \<Longrightarrow> extends a c"
  by (auto simp: extends_iff model_events_def)

lemma get_prediction_extends: "extends s (snd (get_prediction E m s))"
  by (auto simp: get_prediction_def Let_def extends_iff model_events_def log_event_def
      split: sum.splits prod.splits)

lemma prepare_prediction_extends: "extends s (snd (prepare_prediction E m s))"
proof -
  have a: "extends s ((log_event (Returned (GetPrDiff m)) s)\<lparr>patches_diff := Some d\<rparr>)" for d
    by (simp add: extends_iff model_events_def log_event_def)
  have b: "extends s (s'\<lparr>prediction := x\<rparr>)" if "extends s s'" for s' x
    using that by (simp add: extends_iff)
  show ?thesis
  proof (cases "get_pr_diff E (trace s) m")
    case (Inl e)
    then show ?thesis
      by (simp add: prepare_prediction_def extends_iff model_events_def log_event_def)
  next
    case (Inr d)
    let ?s1 = "(log_event (Returned (GetPrDiff m)) s)\<lparr>patches_diff := Some d\<rparr>"
    have c: "extends s (snd (get_prediction E m ?s1))"
      using a get_prediction_extends extends_trans by blast
    show ?thesis
    proof (cases "d = []")
      case True
      with Inr show ?thesis using b[OF a] by (simp add: prepare_prediction_def Let_def)
    next
      case False
      with Inr show ?thesis using c b
        by (cases "get_prediction E m ?s1")
           (auto simp: prepare_prediction_def Let_def split: sum.splits)
    qed
  qed
qed

lemma try_model_extends:
  assumes f: "\<And>m s. extends s (snd (f m s))"
  shows "extends s (snd (try_model f m k s))"
proof (induction k arbitrary: s)
  case 0
  show ?case using f[where m=m and s=s]
    by (cases "f m s") (auto split: sum.splits exn.splits)
next
  case (Suc k)
  show ?case
  proof (cases "f m s")
    case (Pair r s')
    then have e: "extends s s'" using f[where m=m and s=s] by simp
    show ?thesis
    proof (cases r)
      case (Inr u)
      with Pair e show ?thesis by simp
    next
      case (Inl x)
      show ?thesis
      proof (cases x)
        case (TransientFailure msg)
        with Pair Inl e Suc.IH[of s'] show ?thesis
          by (auto intro: extends_trans)
      qed (use Pair Inl e in auto)
    qed
  qed
qed

lemma fallback_extends:
  assumes f: "\<And>m s. extends s (snd (f m s))"
  shows "extends s (snd (fallback f cap ms s))"
proof (induction ms arbitrary: s)
  case Nil
  show ?case by (simp add: extends_refl)
next
  case (Cons m ms)
  obtain r s' where t: "try_model f m (cap - 1) s = (r, s')"
    by (cases "try_model f m (cap - 1) s")
  then have e: "extends s s'" using try_model_extends[of f s m "cap - 1"] f by simp
  show ?case
  proof (cases r)
    case (Inl x)
    with t e show ?thesis by simp
  next
    case (Inr o1)
    show ?thesis
    proof (cases o1)
      case AttemptSucceeded
      with t e Inr show ?thesis by simp
    next
      case NextModel
      with t e Inr Cons.IH[of s'] show ?thesis by (auto intro: extends_trans)
    qed
  qed
qed

lemma retry_extends: "extends s (snd (retry_with_fallback_models E (prepare_prediction E) s))"
proof -
  have "extends s (snd (fallback (prepare_prediction E) (retry_ceiling E) (models E) s))"
    by (rule fallback_extends) (rule prepare_prediction_extends)
  then show ?thesis
    by (cases "fallback (prepare_prediction E) (retry_ceiling E) (models E) s")
       (auto simp: retry_with_fallback_models_def split: sum.splits)
qed

lemma run_start:
  assumes "get_files E (trace s) = Inr files" "files \<noteq> []"
    and "publish_output (settings s) \<longrightarrow>
           provider_raises E (trace s @ [Returned GetFiles]) (PublishComment progress True) = None"
  shows "run_try E s = run_predict E (after_start s)"
  using assms by (simp add: run_try_def after_start_def Let_def provider_call_def log_event_def)

subsection \<open>No prediction\<close>

lemma get_prediction_keeps:
  "patches_diff (snd (get_prediction E m s)) = patches_diff s
   \<and> prediction (snd (get_prediction E m s)) = prediction s"
  by (auto simp: get_prediction_def Let_def log_event_def split: sum.splits prod.splits)

text \<open>
  When the prediction step for one model returns, it has stored the diff, and with an
  empty diff it has reset the prediction (line 225). When it raises, the prediction is
  what it was.
\<close>

lemma prepare_prediction_returned:
  assumes "prepare_prediction E m s = (Inr u, s')"
  shows "patches_diff s' = Some [] \<longrightarrow> prediction s' = None"
proof (cases "get_pr_diff E (trace s) m")
  case (Inl e)
  with assms show ?thesis by (simp add: prepare_prediction_def)
next
  case (Inr d)
  let ?s1 = "(log_event (Returned (GetPrDiff m)) s)\<lparr>patches_diff := Some d\<rparr>"
  show ?thesis
  proof (cases "d = []")
    case True
    with Inr assms show ?thesis by (auto simp: prepare_prediction_def Let_def)
  next
    case False
    have "patches_diff (snd (get_prediction E m ?s1)) = Some d"
      using get_prediction_keeps[of E m ?s1] by simp
    with False Inr assms show ?thesis
      by (cases "get_prediction E m ?s1")
         (auto simp: prepare_prediction_def Let_def split: sum.splits)
  qed
qed

lemma prepare_prediction_raised:
  assumes "prepare_prediction E m s = (Inl e, s')"
  shows "prediction s' = prediction s"
proof (cases "get_pr_diff E (trace s) m")
  case (Inl x)
  with assms show ?thesis by (auto simp: prepare_prediction_def log_event_def)
next
  case (Inr d)
  let ?s1 = "(log_event (Returned (GetPrDiff m)) s)\<lparr>patches_diff := Some d\<rparr>"
  have "prediction (snd (get_prediction E m ?s1)) = prediction s"
    using get_prediction_keeps[of E m ?s1] by (simp add: log_event_def)
  with Inr assms show ?thesis
    by (cases "get_prediction E m ?s1")
       (auto simp: prepare_prediction_def Let_def split: sum.splits if_splits)
qed

lemma try_model_succeeded:
  assumes f: "\<And>m s u s'. f m s = (Inr u, s') \<Longrightarrow> Q s'"
    and "try_model f m k s = (Inr AttemptSucceeded, s')"
  shows "Q s'"
  using assms(2)
proof (induction k arbitrary: s)
  case 0
  then show ?case using f
    by (cases "f m s") (auto split: sum.splits exn.splits)
next
  case (Suc k)
  then show ?case using f
    by (cases "f m s") (auto split: sum.splits exn.splits)
qed

lemma try_model_next:
  assumes f: "\<And>m s e s'. f m s = (Inl e, s') \<Longrightarrow> prediction s' = prediction s"
    and "try_model f m k s = (Inr NextModel, s')"
  shows "prediction s' = prediction s"
  using assms(2)
proof (induction k arbitrary: s)
  case 0
  then show ?case using f
    by (cases "f m s") (auto split: sum.splits exn.splits)
next
  case (Suc k)
  show ?case
  proof (cases "f m s")
    case (Pair r s1)
    show ?thesis
    proof (cases r)
      case (Inr u)
      with Pair Suc.prems show ?thesis by simp
    next
      case (Inl x)
      then have p: "prediction s1 = prediction s" using f Pair by blast
      show ?thesis
      proof (cases x)
        case (TransientFailure msg)
        with Pair Inl Suc.prems have "try_model f m k s1 = (Inr NextModel, s')" by simp
        then have "prediction s' = prediction s1" by (rule Suc.IH)
        with p show ?thesis by simp
      qed (use Pair Inl Suc.prems p in auto)
    qed
  qed
qed

lemma fallback_succeeded:
  assumes f: "\<And>m s u s'. f m s = (Inr u, s') \<Longrightarrow> Q s'"
    and "fallback f cap ms s = (Inr Succeeded, s')"
  shows "Q s'"
  using assms(2)
proof (induction ms arbitrary: s)
  case Nil
  then show ?case by simp
next
  case (Cons m ms)
  obtain r s1 where t: "try_model f m (cap - 1) s = (r, s1)"
    by (cases "try_model f m (cap - 1) s")
  show ?case
  proof (cases r)
    case (Inl x)
    with t Cons.prems show ?thesis by simp
  next
    case (Inr o1)
    show ?thesis
    proof (cases o1)
      case AttemptSucceeded
      with t Inr Cons.prems have "s' = s1" by simp
      with t Inr AttemptSucceeded show ?thesis
        using try_model_succeeded[of f Q m "cap - 1" s s1] f by blast
    next
      case NextModel
      with t Inr Cons.prems have "fallback f cap ms s1 = (Inr Succeeded, s')" by simp
      then show ?thesis by (rule Cons.IH)
    qed
  qed
qed

lemma fallback_exhausted:
  assumes f: "\<And>m s e s'. f m s = (Inl e, s') \<Longrightarrow> prediction s' = prediction s"
    and "fallback f cap ms s = (Inr Exhausted, s')"
  shows "prediction s' = prediction s"
  using assms(2)
proof (induction ms arbitrary: s)
  case Nil
  then show ?case by simp
next
  case (Cons m ms)
  obtain r s1 where t: "try_model f m (cap - 1) s = (r, s1)"
    by (cases "try_model f m (cap - 1) s")
  show ?case
  proof (cases r)
    case (Inl x)
    with t Cons.prems show ?thesis by simp
  next
    case (Inr o1)
    show ?thesis
    proof (cases o1)
      case AttemptSucceeded
      with t Inr Cons.prems show ?thesis by simp
    next
      case NextModel
      with t Inr have "prediction s1 = prediction s"
        using try_model_next[of f m "cap - 1" s s1] f by blast
      moreover from t Inr NextModel Cons.prems
      have "fallback f cap ms s1 = (Inr Exhausted, s')" by simp
      then have "prediction s' = prediction s1" by (rule Cons.IH)
      ultimately show ?thesis by simp
    qed
  qed
qed

text \<open>
  C6 as stated fails: with an empty diff the prediction step yields no prediction, and
  when the removal of the provisional comment then raises, the handler of \<^verbatim>\<open>run\<close>
  posts the failure notice, which is a user-facing error, and tries the removal again.
\<close>

theorem no_prediction_notice_counterexample:
  "fst (run removal_fails_env example_state) = Inr None
   \<and> patches_diff (snd (run removal_fails_env example_state)) = Some []
   \<and> prediction (snd (run removal_fails_env example_state)) = None
   \<and> trace (snd (run removal_fails_env example_state))
       = [Returned GetFiles, Returned (PublishComment progress True),
          Returned (GetPrDiff ''primary''),
          Raised RemoveInitialComment (OtherException ''404 Not Found''),
          Returned (PublishComment failure_notice False),
          Raised RemoveInitialComment (OtherException ''404 Not Found'')]"
  by (simp add: example_defs run_defs)

text \<open>
  C6 (statement that holds). On a run with changed files whose provisional comment, if
  publishing is enabled, was posted: when the controller has succeeded with an empty
  diff, or is exhausted while the prediction was still unset (\<^verbatim>\<open>None\<close> or empty, as
  the constructor leaves it), the prediction step has yielded no prediction; and when
  the removal of the provisional comment then returns, \<^verbatim>\<open>run\<close> returns \<^verbatim>\<open>None\<close>
  without raising, and after the prediction step the one call it makes is that removal:
  no report and no failure notice is published. The prediction step itself made calls
  to the diff budgeter and the model only and left the settings as they were.
\<close>

theorem no_prediction_is_silent:
  assumes "get_files E (trace s) = Inr files" "files \<noteq> []"
    and "publish_output (settings s) \<longrightarrow>
           provider_raises E (trace s @ [Returned GetFiles]) (PublishComment progress True) = None"
    and "fallback (prepare_prediction E) (retry_ceiling E) (models E) (after_start s)
           = (Inr outcome, s2)"
    and "(outcome = Succeeded \<and> patches_diff s2 = Some [])
         \<or> (outcome = Exhausted \<and> \<not> truthy (of_opt (prediction s)))"
    and "provider_raises E (trace s2) RemoveInitialComment = None"
  shows "\<not> truthy (of_opt (prediction s2))
         \<and> run E s = (Inr None, s2\<lparr>trace := trace s2 @ [Returned RemoveInitialComment]\<rparr>)
         \<and> extends (after_start s) s2"
proof -
  have start: "prediction (after_start s) = prediction s"
    by (simp add: after_start_def)
  have none: "\<not> truthy (of_opt (prediction s2))"
  proof (cases outcome)
    case Succeeded
    with assms(4) have "patches_diff s2 = Some [] \<longrightarrow> prediction s2 = None"
      using fallback_succeeded
              [of "prepare_prediction E" "\<lambda>s'. patches_diff s' = Some [] \<longrightarrow> prediction s' = None"]
            prepare_prediction_returned
      by blast
    with Succeeded assms(5) show ?thesis by (simp add: of_opt_def)
  next
    case Exhausted
    with assms(4) have "prediction s2 = prediction (after_start s)"
      using fallback_exhausted[of "prepare_prediction E"] prepare_prediction_raised by blast
    with Exhausted assms(5) start show ?thesis by simp
  qed
  have r: "retry_with_fallback_models E (prepare_prediction E) (after_start s) = (Inr (), s2)"
    using assms(4) by (simp add: retry_with_fallback_models_def)
  have "run_try E s = run_predict E (after_start s)" using assms(1-3) by (rule run_start)
  also have "\<dots> = (Inr None, s2\<lparr>trace := trace s2 @ [Returned RemoveInitialComment]\<rparr>)"
    using r none assms(6) by (simp add: run_predict_def provider_call_def log_event_def)
  finally have "run E s = (Inr None, s2\<lparr>trace := trace s2 @ [Returned RemoveInitialComment]\<rparr>)"
    by (simp add: run_def)
  moreover have "extends (after_start s) s2"
    using retry_extends[of "after_start s" E] r by simp
  ultimately show ?thesis using none by simp
qed

text \<open>
  The two causes at work: an empty diff on an object that still holds an earlier
  prediction, and two models of which the first fails transiently at both attempts and
  the second permanently.
\<close>

theorem no_prediction_is_silent_witness:
  "prediction stale_state = Some ''Risk: High''
   \<and> \<not> truthy (of_opt (prediction (snd (run empty_diff_env stale_state))))
   \<and> fst (run empty_diff_env stale_state) = Inr None
   \<and> trace (snd (run empty_diff_env stale_state))
       = [Returned GetFiles, Returned (PublishComment progress True),
          Returned (GetPrDiff ''primary''), Returned RemoveInitialComment]
   \<and> fst (run failing_models_env example_state) = Inr None
   \<and> map call_of (trace (snd (run failing_models_env example_state)))
       = [GetFiles, PublishComment progress True,
          GetPrDiff ''primary'',
          ChatCompletion ''You analyze deployments.''
            (''Title: Add cache layer'' @ ''\<newline>'' @ ''+cache = {}'') ''primary'' 0,
          GetPrDiff ''primary'',
          ChatCompletion ''You analyze deployments.''
            (''Title: Add cache layer'' @ ''\<newline>'' @ ''+cache = {}'') ''primary'' 0,
          GetPrDiff ''backup'',
          ChatCompletion ''You analyze deployments.''
            (''Title: Add cache layer'' @ ''\<newline>'' @ ''+cache = {}'') ''backup'' 0,
          RemoveInitialComment]"
proof -
  let ?A = "snd (fallback (prepare_prediction empty_diff_env) (retry_ceiling empty_diff_env)
                   (models empty_diff_env) (after_start stale_state))"
  let ?B = "snd (fallback (prepare_prediction failing_models_env)
                   (retry_ceiling failing_models_env) (models failing_models_env)
                   (after_start example_state))"
  have a1: "get_files empty_diff_env (trace stale_state) = Inr [''cache.py'']"
    and b1: "get_files failing_models_env (trace example_state) = Inr [''cache.py'']"
    by (simp_all add: example_defs)
  have h2: "[''cache.py''] \<noteq> []" by simp
  have a3: "publish_output (settings stale_state) \<longrightarrow>
              provider_raises empty_diff_env (trace stale_state @ [Returned GetFiles])
                (PublishComment progress True) = None"
    and b3: "publish_output (settings example_state) \<longrightarrow>
              provider_raises failing_models_env (trace example_state @ [Returned GetFiles])
                (PublishComment progress True) = None"
    by (simp_all add: example_defs)
  have a4: "fallback (prepare_prediction empty_diff_env) (retry_ceiling empty_diff_env)
              (models empty_diff_env) (after_start stale_state) = (Inr Succeeded, ?A)"
    by (simp add: example_defs run_defs)
  have b4: "fallback (prepare_prediction failing_models_env) (retry_ceiling failing_models_env)
              (models failing_models_env) (after_start example_state) = (Inr Exhausted, ?B)"
    by (simp add: example_defs run_defs)
  have a5: "(Succeeded = Succeeded \<and> patches_diff ?A = Some [])
            \<or> (Succeeded = Exhausted \<and> \<not> truthy (of_opt (prediction stale_state)))"
    by (simp add: example_defs run_defs)
  have b5: "(Exhausted = Succeeded \<and> patches_diff ?B = Some [])
            \<or> (Exhausted = Exhausted \<and> \<not> truthy (of_opt (prediction example_state)))"
    by (simp add: example_defs run_defs)
  have a6: "provider_raises empty_diff_env (trace ?A) RemoveInitialComment = None"
    by (simp add: example_defs)
  have b6: "provider_raises failing_models_env (trace ?B) RemoveInitialComment = None"
    by (simp add: example_defs)
  note A = no_prediction_is_silent [OF a1 h2 a3 a4 a5 a6]
  note B = no_prediction_is_silent [OF b1 h2 b3 b4 b5 b6]
  have s: "prediction stale_state = Some ''Risk: High''" by (simp add: example_defs)
  have A1: "\<not> truthy (of_opt (prediction (snd (run empty_diff_env stale_state))))"
    using A by simp
  have A2: "fst (run empty_diff_env stale_state) = Inr None" using A by simp
  have A3: "trace (snd (run empty_diff_env stale_state))
       = [Returned GetFiles, Returned (PublishComment progress True),
          Returned (GetPrDiff ''primary''), Returned RemoveInitialComment]"
  proof -
    have "trace ?A = [Returned GetFiles, Returned (PublishComment progress True),
                      Returned (GetPrDiff ''primary'')]"
      by (simp add: example_defs run_defs)
    with A show ?thesis by simp
  qed
  have B1: "fst (run failing_models_env example_state) = Inr None" using B by simp
  have B2: "map call_of (trace (snd (run failing_models_env example_state)))
       = [GetFiles, PublishComment progress True,
          GetPrDiff ''primary'',
          ChatCompletion ''You analyze deployments.''
            (''Title: Add cache layer'' @ ''\<newline>'' @ ''+cache = {}'') ''primary'' 0,
          GetPrDiff ''primary'',
          ChatCompletion ''You analyze deployments.''
            (''Title: Add cache layer'' @ ''\<newline>'' @ ''+cache = {}'') ''primary'' 0,
          GetPrDiff ''backup'',
          ChatCompletion ''You analyze deployments.''
            (''Title: Add cache layer'' @ ''\<newline>'' @ ''+cache = {}'') ''backup'' 0,
          RemoveInitialComment]"
  proof -
    have "map call_of (trace ?B)
       = [GetFiles, PublishComment progress True,
          GetPrDiff ''primary'',
          ChatCompletion ''You analyze deployments.''
            (''Title: Add cache layer'' @ ''\<newline>'' @ ''+cache = {}'') ''primary'' 0,
          GetPrDiff ''primary'',
          ChatCompletion ''You analyze deployments.''
            (''Title: Add cache layer'' @ ''\<newline>'' @ ''+cache = {}'') ''primary'' 0,
          GetPrDiff ''backup'',
          ChatCompletion ''You analyze deployments.''
            (''Title: Add cache layer'' @ ''\<newline>'' @ ''+cache = {}'') ''backup'' 0]"
      by (simp add: example_defs run_defs)
    with B show ?thesis by simp
  qed
  from s A1 A2 A3 B1 B2 show ?thesis by simp
qed

subsection \<open>Publishing the report\<close>










subsection \<open>What leaves the orchestrator\<close>

lemma run_publish_None: "run_publish E s = (Inr r, s') \<Longrightarrow> r = None"
  by (auto simp: run_publish_def Let_def split: sum.splits prod.splits if_splits)

lemma run_predict_None: "run_predict E s = (Inr r, s') \<Longrightarrow> r = None"
  by (auto simp: run_predict_def split: sum.splits prod.splits if_splits dest: run_publish_None)

lemma run_try_None: "run_try E s = (Inr r, s') \<Longrightarrow> r = None"
  by (auto simp: run_try_def Let_def split: sum.splits prod.splits if_splits
      dest: run_predict_None)

lemma run_returns_None: "run E s = (Inr r, s') \<Longrightarrow> r = None"
  by (auto simp: run_def split: sum.splits prod.splits if_splits dest: run_try_None)

lemma run_raises_only_from_body:
  "run E s = (Inl e, s') \<Longrightarrow> \<not> is_Exception e \<and> run_try E s = (Inl e, s')"
  by (auto simp: run_def split: sum.splits prod.splits if_splits)

lemma not_Exception_iff: "\<not> is_Exception e \<longleftrightarrow> (\<exists>m. e = BaseExn m)"
  by (cases e) simp_all

lemma run_cases:
  "fst (run E s) = Inr None
   \<or> (\<exists>m. fst (run E s) = Inl (BaseExn m) \<and> fst (run_try E s) = Inl (BaseExn m))"
proof (cases "run E s")
  case (Pair r s')
  show ?thesis
  proof (cases r)
    case (Inl e)
    with Pair have "\<not> is_Exception e" "run_try E s = (Inl e, s')"
      using run_raises_only_from_body by blast+
    with Pair Inl show ?thesis by (auto simp: not_Exception_iff)
  next
    case (Inr x)
    with Pair have "x = None" using run_returns_None by blast
    with Pair Inr show ?thesis by simp
  qed
qed

text \<open>
  C4 as stated fails: a rendering failure in the prediction step does not leave
  \<^verbatim>\<open>run\<close>. With a user template that refers to the variable \<^verbatim>\<open>ticket\<close>, which the
  context lacks, the body of the \<^verbatim>\<open>try\<close> raises \<open>TemplateRenderError\<close>, the handler
  publishes the failure notice and removes the provisional comment, and \<^verbatim>\<open>run\<close>
  returns \<^verbatim>\<open>None\<close>.
\<close>

theorem render_error_leaves_run_counterexample:
  "fst (run_try example_env missing_variable_state) = Inl (TemplateRenderError ''ticket'')
   \<and> fst (run example_env missing_variable_state) \<noteq> Inl (TemplateRenderError ''ticket'')
   \<and> fst (run example_env missing_variable_state) = Inr None
   \<and> trace (snd (run example_env missing_variable_state))
       = [Returned GetFiles, Returned (PublishComment progress True),
          Returned (GetPrDiff ''primary''),
          Returned (PublishComment failure_notice False), Returned RemoveInitialComment]"
  by (simp add: example_defs run_defs)

text \<open>
  C4 (statement that holds). No exception of class \<^verbatim>\<open>Exception\<close> leaves \<^verbatim>\<open>run\<close>:
  \<^verbatim>\<open>run\<close> either returns \<^verbatim>\<open>None\<close>, or raises an exception outside the class
  \<^verbatim>\<open>Exception\<close> that the body of its \<^verbatim>\<open>try\<close> raised. Every failure of class
  \<^verbatim>\<open>Exception\<close> in the body, a rendering failure included, is absorbed: the handler
  runs and \<^verbatim>\<open>run\<close> returns \<^verbatim>\<open>None\<close>.
\<close>

theorem run_absorbs_every_Exception:
  "(fst (run E s) = Inr None
    \<or> (\<exists>m. fst (run E s) = Inl (BaseExn m) \<and> fst (run_try E s) = Inl (BaseExn m)))
   \<and> (fst (run_try E s) = Inl e \<and> is_Exception e \<longrightarrow>
        run E s = (Inr None, run_except E (snd (run_try E s))))"
proof
  show "fst (run E s) = Inr None
    \<or> (\<exists>m. fst (run E s) = Inl (BaseExn m) \<and> fst (run_try E s) = Inl (BaseExn m))"
    by (rule run_cases)
  show "fst (run_try E s) = Inl e \<and> is_Exception e \<longrightarrow>
        run E s = (Inr None, run_except E (snd (run_try E s)))"
    by (cases "run_try E s") (auto simp: run_def)
qed

theorem run_absorbs_every_Exception_witness:
  "fst (run_try example_env missing_variable_state) = Inl (TemplateRenderError ''ticket'')
   \<and> is_Exception (TemplateRenderError ''ticket'')
   \<and> run example_env missing_variable_state
       = (Inr None, run_except example_env (snd (run_try example_env missing_variable_state)))"
proof -
  have h: "fst (run_try example_env missing_variable_state) = Inl (TemplateRenderError ''ticket'')
           \<and> is_Exception (TemplateRenderError ''ticket'')"
    by (simp add: example_defs run_defs)
  with run_absorbs_every_Exception [of example_env missing_variable_state
         "TemplateRenderError ''ticket''"]
  show ?thesis by blast
qed

subsection \<open>The provisional comment when the failure notice fails\<close>

text \<open>
  When the report cannot be published and the failure notice and the removal return, the
  handler publishes the notice and removes the provisional comment, once.
\<close>

lemma publish_failure_removes_marker:
  assumes "get_files E (trace s) = Inr files" "files \<noteq> []"
    and "publish_output (settings s)"
    and "provider_raises E (trace s @ [Returned GetFiles]) (PublishComment progress True) = None"
    and "retry_with_fallback_models E (prepare_prediction E) (after_start s) = (Inr (), s2)"
    and "prediction s2 = Some p" "p \<noteq> []"
    and "c = publish_call (settings s) (report_header @ p)"
    and "provider_raises E (trace s2) c = Some e" "is_Exception e"
    and "provider_raises E (trace s2 @ [Raised c e]) (PublishComment failure_notice False) = None"
    and "provider_raises E (trace s2 @ [Raised c e, Returned (PublishComment failure_notice False)])
           RemoveInitialComment = None"
  shows "run E s = (Inr None,
           s2\<lparr>trace := trace s2 @ [Raised c e, Returned (PublishComment failure_notice False),
                                   Returned RemoveInitialComment]\<rparr>)"
proof -
  have "extends (after_start s) s2"
    using retry_extends[of "after_start s" E] assms(5) by simp
  then have st: "settings s2 = settings s"
    by (simp add: extends_iff after_start_def)
  have "run_try E s = run_predict E (after_start s)" using assms(1-4) by (simp add: run_start)
  also have "\<dots> = run_publish E s2"
    using assms(5-7) by (simp add: run_predict_def of_opt_def)
  also have "\<dots> = (Inl e, s2\<lparr>trace := trace s2 @ [Raised c e]\<rparr>)"
    using assms(3,6,8,9) st
    by (simp add: run_publish_def prepare_deployment_impact_analysis_def provider_call_def
          log_event_def)
  finally show ?thesis
    using assms(3,10-12) st
    by (simp add: run_def run_except_def provider_call_def log_event_def)
qed


text \<open>
  C3 at a failing input. The provider accepts the provisional comment and rejects every
  other comment. The report cannot be published, the handler's failure notice is rejected
  too, and since the removal stands behind the notice in the same \<^verbatim>\<open>try\<close>, it is never
  called: \<^verbatim>\<open>run\<close> returns \<^verbatim>\<open>None\<close> and the provisional comment was posted and not
  removed.
\<close>

theorem provisional_comment_left_behind:
  "fst (run comments_rejected_env example_state) = Inr None
   \<and> trace (snd (run comments_rejected_env example_state))
       = [Returned GetFiles, Returned (PublishComment progress True),
          Returned (GetPrDiff ''primary''),
          Returned (ChatCompletion ''You analyze deployments.''
             (''Title: Add cache layer'' @ ''\<newline>'' @ ''+cache = {}'') ''primary'' 0),
          Raised (PublishComment (report_header @ ''Risk: Low'') False)
             (OtherException ''403 Forbidden''),
          Raised (PublishComment failure_notice False) (OtherException ''403 Forbidden'')]"
  by (simp add: example_defs run_defs)

subsection \<open>The report when publishing is disabled\<close>

lemmas init_defs =
  PRDeploymentImpact_init_def init_ai_metadata_def init_vars_def extra_instructions_of_def
  init_locals_def module_globals_def api_analyze_def run_analysis_def no_result_def
  attribute_error_def
  stored_artifact_def unpublishing_def

lemma run_unpublished:
  assumes "\<not> publish_output (settings s)"
    and "get_files E (trace s) = Inr files" "files \<noteq> []"
    and "retry_with_fallback_models E (prepare_prediction E) (after_start s) = (Inr (), s2)"
    and "prediction s2 = Some p" "p \<noteq> []"
    and "cli_mode s \<longrightarrow> provider_raises E (trace s2) (Print (report_header @ p)) = None"
  shows "fst (run E s) = Inr None"
    and "settings (snd (run E s))
           = (settings s)\<lparr>data := Some [''artifact'' \<mapsto> report_header @ p]\<rparr>"
    and "trace (snd (run E s))
           = trace s2 @ (if cli_mode s then [Returned (Print (report_header @ p))] else [])"
proof -
  have e: "extends (after_start s) s2"
    using retry_extends[of "after_start s" E] assms(4) by simp
  then have st: "settings s2 = settings s" "cli_mode s2 = cli_mode s"
    by (simp_all add: extends_iff after_start_def)
  have "run_try E s = run_predict E (after_start s)" using assms(1-3) by (simp add: run_start)
  also have "\<dots> = run_publish E s2"
    using assms(4-6) by (simp add: run_predict_def of_opt_def)
  finally have r: "run_try E s = run_publish E s2" .
  show "fst (run E s) = Inr None"
    using r assms(1,5,7) st
    by (simp add: run_def run_publish_def prepare_deployment_impact_analysis_def
          provider_call_def log_event_def Let_def)
  show "settings (snd (run E s))
           = (settings s)\<lparr>data := Some [''artifact'' \<mapsto> report_header @ p]\<rparr>"
    using r assms(1,5,7) st
    by (simp add: run_def run_publish_def prepare_deployment_impact_analysis_def
          provider_call_def log_event_def Let_def)
  show "trace (snd (run E s))
           = trace s2 @ (if cli_mode s then [Returned (Print (report_header @ p))] else [])"
    using r assms(1,5,7) st
    by (simp add: run_def run_publish_def prepare_deployment_impact_analysis_def
          provider_call_def log_event_def Let_def)
qed

lemma run_analysis_result:
  "run E s = (Inr r, s') \<Longrightarrow> run_analysis E s = (Inr (stored_artifact (settings s')), s')"
  by (simp add: run_analysis_def stored_artifact_def split: option.splits)

lemma init_keeps_publish_output:
  "publish_output (settings (snd (PRDeploymentImpact_init E url cli s)))
     = publish_output (settings s)"
  by (simp add: PRDeploymentImpact_init_def init_ai_metadata_def Let_def
      split: sum.splits option.splits prod.splits)

lemma init_disables_ai_metadata:
  assumes "provider_context E url = Inr pc"
    and "\<not> (pr_description_files pc \<noteq> [] \<and> is_auto_command (settings s)
            \<and> enable_ai_metadata (settings s))"
  shows "\<not> enable_ai_metadata (settings (snd (PRDeploymentImpact_init E url cli s)))"
  using assms
  by (auto simp: PRDeploymentImpact_init_def init_ai_metadata_def Let_def
      split: sum.splits option.splits prod.splits)

text \<open>
  C10. \<^verbatim>\<open>run\<close> never returns a report: whatever it returns is \<^verbatim>\<open>None\<close>. On a run
  with publishing disabled whose prediction step returned the non-empty prediction \<open>p\<close>
  (and, in CLI mode, whose \<^verbatim>\<open>print\<close> returns), \<^verbatim>\<open>run\<close> returns \<^verbatim>\<open>None\<close> and
  leaves the settings changed: their \<^verbatim>\<open>data\<close> is now the dictionary with the one key
  \<^verbatim>\<open>artifact\<close> holding the report, which \<^verbatim>\<open>run_analysis\<close> reads back and returns.
  The constructor changes the settings too: when the provider answers and the conditions
  for AI metadata are not all met, \<^verbatim>\<open>enable_ai_metadata\<close> is false afterwards, whatever
  it was before.
\<close>

theorem run_returns_None_and_writes_settings:
  "fst (run E s) \<noteq> Inr (Some report)
   \<and> (\<not> publish_output (settings s) \<and> get_files E (trace s) = Inr files \<and> files \<noteq> []
      \<and> retry_with_fallback_models E (prepare_prediction E) (after_start s) = (Inr (), s2)
      \<and> prediction s2 = Some p \<and> p \<noteq> []
      \<and> (cli_mode s \<longrightarrow> provider_raises E (trace s2) (Print (report_header @ p)) = None)
      \<longrightarrow> fst (run E s) = Inr None
          \<and> settings (snd (run E s))
              = (settings s)\<lparr>data := Some [''artifact'' \<mapsto> report_header @ p]\<rparr>
          \<and> fst (run_analysis E s) = Inr (report_header @ p))
   \<and> (provider_context E url = Inr pc
      \<and> \<not> (pr_description_files pc \<noteq> [] \<and> is_auto_command (settings s0)
             \<and> enable_ai_metadata (settings s0))
      \<longrightarrow> \<not> enable_ai_metadata (settings (snd (PRDeploymentImpact_init E url cli s0))))"
proof (intro conjI impI)
  show "fst (run E s) \<noteq> Inr (Some report)"
    using run_cases[of E s] by auto
next
  assume a: "\<not> publish_output (settings s) \<and> get_files E (trace s) = Inr files \<and> files \<noteq> []
      \<and> retry_with_fallback_models E (prepare_prediction E) (after_start s) = (Inr (), s2)
      \<and> prediction s2 = Some p \<and> p \<noteq> []
      \<and> (cli_mode s \<longrightarrow> provider_raises E (trace s2) (Print (report_header @ p)) = None)"
  then have r: "fst (run E s) = Inr None"
    and st: "settings (snd (run E s))
              = (settings s)\<lparr>data := Some [''artifact'' \<mapsto> report_header @ p]\<rparr>"
    using run_unpublished[of s E files s2 p] by blast+
  from r show "fst (run E s) = Inr None" .
  from st show "settings (snd (run E s))
              = (settings s)\<lparr>data := Some [''artifact'' \<mapsto> report_header @ p]\<rparr>" .
  from r have "run E s = (Inr None, snd (run E s))" by (metis prod.collapse)
  then have "run_analysis E s = (Inr (stored_artifact (settings (snd (run E s)))), snd (run E s))"
    by (rule run_analysis_result)
  with st show "fst (run_analysis E s) = Inr (report_header @ p)"
    by (simp add: stored_artifact_def)
next
  assume "provider_context E url = Inr pc
      \<and> \<not> (pr_description_files pc \<noteq> [] \<and> is_auto_command (settings s0)
             \<and> enable_ai_metadata (settings s0))"
  then show "\<not> enable_ai_metadata (settings (snd (PRDeploymentImpact_init E url cli s0)))"
    using init_disables_ai_metadata by blast
qed

theorem run_returns_None_and_writes_settings_witness:
  "fst (run example_env unpublished_state) = Inr None
   \<and> data (settings unpublished_state) = None
   \<and> settings (snd (run example_env unpublished_state))
       = (settings unpublished_state)
           \<lparr>data := Some [''artifact'' \<mapsto> report_header @ ''Risk: Low'']\<rparr>
   \<and> fst (run_analysis example_env unpublished_state) = Inr (report_header @ ''Risk: Low'')
   \<and> enable_ai_metadata (settings example_state)
   \<and> \<not> enable_ai_metadata (settings (snd (PRDeploymentImpact_init example_env
          ''https://example.org/pull/1'' False example_state)))"
proof -
  let ?s2 = "snd (retry_with_fallback_models example_env (prepare_prediction example_env)
                    (after_start unpublished_state))"
  have a: "\<not> publish_output (settings unpublished_state)
      \<and> get_files example_env (trace unpublished_state) = Inr [''cache.py'']
      \<and> [''cache.py''] \<noteq> []
      \<and> retry_with_fallback_models example_env (prepare_prediction example_env)
          (after_start unpublished_state) = (Inr (), ?s2)
      \<and> prediction ?s2 = Some ''Risk: Low'' \<and> ''Risk: Low'' \<noteq> []
      \<and> (cli_mode unpublished_state \<longrightarrow>
           provider_raises example_env (trace ?s2) (Print (report_header @ ''Risk: Low'')) = None)"
    by (simp add: example_defs run_defs)
  have b: "provider_context example_env ''https://example.org/pull/1''
             = Inr \<lparr>main_language = ''Python'', pr_description = ''Adds a cache'',
                    pr_description_files = []\<rparr>
      \<and> \<not> (pr_description_files \<lparr>main_language = ''Python'', pr_description = ''Adds a cache'',
                    pr_description_files = []\<rparr> \<noteq> []
             \<and> is_auto_command (settings example_state)
             \<and> enable_ai_metadata (settings example_state))"
    by (simp add: example_defs)
  have c: "enable_ai_metadata (settings example_state)
           \<and> data (settings unpublished_state) = None"
    by (simp add: example_defs)
  note t = run_returns_None_and_writes_settings
             [of example_env unpublished_state _ "[''cache.py'']" ?s2 "''Risk: Low''"
                 "''https://example.org/pull/1''"
                 "\<lparr>main_language = ''Python'', pr_description = ''Adds a cache'',
                    pr_description_files = []\<rparr>" example_state False]
  from a b c t show ?thesis by blast
qed


subsection \<open>The HTTP endpoint\<close>

text \<open>
  C9 as stated fails: an internal failure during the analysis does not yield an error
  payload. With a user template that refers to a variable the context lacks, the body of
  \<^verbatim>\<open>run\<close> raises \<open>TemplateRenderError\<close>, \<^verbatim>\<open>run\<close> absorbs it, and the endpoint
  answers with a result payload, \<^verbatim>\<open>No analysis result available\<close>, and status 200.
\<close>

theorem api_internal_failure_counterexample:
  "fst (run_try example_env
          (snd (PRDeploymentImpact_init example_env ''https://example.org/pull/1'' True
                  (unpublishing missing_variable_state))))
     = Inl (TemplateRenderError ''ticket'')
   \<and> fst (api_analyze example_env example_request missing_variable_state)
       = Inr (JsonResult ''No analysis result available'', 200)"
  by (simp add: example_defs run_defs init_defs)

lemma json_get_not_object:
  "(\<forall>d. body \<noteq> JsonObject d) \<Longrightarrow> \<exists>msg. json_get body key = Inl (OtherException msg)"
  by (cases body) (simp_all add: attribute_error_def)

text \<open>
  C9 (statement that holds). When \<^verbatim>\<open>request.json\<close> raises, and when the parsed body
  is not a JSON object, so that \<^verbatim>\<open>data.get\<close> raises, the exception leaves the
  endpoint, which builds no payload and touches nothing. For a body that is a JSON
  object (with string values): when its \<^verbatim>\<open>pr_url\<close> is missing or empty, the answer
  is an error payload with status 400, and nothing else happens. When the constructor
  raises an exception of class \<^verbatim>\<open>Exception\<close>, the answer is an error payload with the
  text of the exception and status 500. When the constructor returns and \<^verbatim>\<open>run\<close>
  returns, which it does after any failure of class \<^verbatim>\<open>Exception\<close> inside it, the
  answer is a result payload with status 200, holding the artifact found in the settings
  or, if there is none, \<^verbatim>\<open>No analysis result available\<close>. When the analysis succeeds
  with the non-empty prediction \<open>p\<close>, the answer is a result payload with status 200
  holding the report, the header followed by \<open>p\<close>.
\<close>

theorem api_analyze_responses:
  "(api_analyze E (Inl e0) s = (Inl e0, s))
   \<and> ((\<forall>d. body \<noteq> JsonObject d) \<longrightarrow>
        (\<exists>msg. api_analyze E (Inr body) s = (Inl (OtherException msg), s)))
   \<and> (\<not> truthy (of_opt (req ''pr_url'')) \<longrightarrow>
        api_analyze E (Inr (JsonObject req)) s
          = (Inr (JsonError ''PR URL is required'', 400), s))
   \<and> (req ''pr_url'' = Some url \<and> url \<noteq> []
      \<and> PRDeploymentImpact_init E url True (unpublishing s) = (Inl e, s1) \<and> is_Exception e
      \<longrightarrow> api_analyze E (Inr (JsonObject req)) s = (Inr (JsonError (str_exn e), 500), s1))
   \<and> (req ''pr_url'' = Some url \<and> url \<noteq> []
      \<and> PRDeploymentImpact_init E url True (unpublishing s) = (Inr (), s1)
      \<and> run E s1 = (Inr r, s2)
      \<longrightarrow> api_analyze E (Inr (JsonObject req)) s
            = (Inr (JsonResult (stored_artifact (settings s2)), 200), s2))
   \<and> (req ''pr_url'' = Some url \<and> url \<noteq> []
      \<and> PRDeploymentImpact_init E url True (unpublishing s) = (Inr (), s1)
      \<and> get_files E (trace s1) = Inr files \<and> files \<noteq> []
      \<and> retry_with_fallback_models E (prepare_prediction E) (after_start s1) = (Inr (), s3)
      \<and> prediction s3 = Some p \<and> p \<noteq> []
      \<and> provider_raises E (trace s3) (Print (report_header @ p)) = None
      \<longrightarrow> fst (api_analyze E (Inr (JsonObject req)) s)
            = Inr (JsonResult (report_header @ p), 200))"
proof (intro conjI impI)
  show "api_analyze E (Inl e0) s = (Inl e0, s)"
    by (simp add: api_analyze_def)
next
  assume "\<forall>d. body \<noteq> JsonObject d"
  then obtain msg where "json_get body ''pr_url'' = Inl (OtherException msg)"
    using json_get_not_object by blast
  then have "api_analyze E (Inr body) s = (Inl (OtherException msg), s)"
    by (simp add: api_analyze_def)
  then show "\<exists>msg. api_analyze E (Inr body) s = (Inl (OtherException msg), s)" by blast
next
  assume "\<not> truthy (of_opt (req ''pr_url''))"
  then show "api_analyze E (Inr (JsonObject req)) s
               = (Inr (JsonError ''PR URL is required'', 400), s)"
    by (simp add: api_analyze_def)
next
  assume a: "req ''pr_url'' = Some url \<and> url \<noteq> []
      \<and> PRDeploymentImpact_init E url True (unpublishing s) = (Inl e, s1) \<and> is_Exception e"
  then show "api_analyze E (Inr (JsonObject req)) s = (Inr (JsonError (str_exn e), 500), s1)"
    by (simp add: api_analyze_def of_opt_def unpublishing_def)
next
  assume a: "req ''pr_url'' = Some url \<and> url \<noteq> []
      \<and> PRDeploymentImpact_init E url True (unpublishing s) = (Inr (), s1)
      \<and> run E s1 = (Inr r, s2)"
  then have "run_analysis E s1 = (Inr (stored_artifact (settings s2)), s2)"
    using run_analysis_result by blast
  with a show "api_analyze E (Inr (JsonObject req)) s
                 = (Inr (JsonResult (stored_artifact (settings s2)), 200), s2)"
    by (simp add: api_analyze_def of_opt_def unpublishing_def)
next
  assume a: "req ''pr_url'' = Some url \<and> url \<noteq> []
      \<and> PRDeploymentImpact_init E url True (unpublishing s) = (Inr (), s1)
      \<and> get_files E (trace s1) = Inr files \<and> files \<noteq> []
      \<and> retry_with_fallback_models E (prepare_prediction E) (after_start s1) = (Inr (), s3)
      \<and> prediction s3 = Some p \<and> p \<noteq> []
      \<and> provider_raises E (trace s3) (Print (report_header @ p)) = None"
  have "publish_output (settings (snd (PRDeploymentImpact_init E url True (unpublishing s))))
          = publish_output (settings (unpublishing s))"
    by (rule init_keeps_publish_output)
  with a have np: "\<not> publish_output (settings s1)" by (simp add: unpublishing_def)
  from a np have r: "fst (run E s1) = Inr None"
    and st: "settings (snd (run E s1))
              = (settings s1)\<lparr>data := Some [''artifact'' \<mapsto> report_header @ p]\<rparr>"
    using run_unpublished[of s1 E files s3 p] by blast+
  from r have "run E s1 = (Inr None, snd (run E s1))" by (metis prod.collapse)
  then have "run_analysis E s1
               = (Inr (stored_artifact (settings (snd (run E s1)))), snd (run E s1))"
    by (rule run_analysis_result)
  with st have "run_analysis E s1 = (Inr (report_header @ p), snd (run E s1))"
    by (simp add: stored_artifact_def)
  with a show "fst (api_analyze E (Inr (JsonObject req)) s)
                 = Inr (JsonResult (report_header @ p), 200)"
    by (simp add: api_analyze_def of_opt_def unpublishing_def)
qed

theorem api_analyze_responses_witness:
  "api_analyze example_env (Inl (OtherException ''415 Unsupported Media Type'')) example_state
     = (Inl (OtherException ''415 Unsupported Media Type''), example_state)
   \<and> api_analyze example_env (Inr JsonNull) example_state
       = (Inl (attribute_error ''NoneType'' ''get''), example_state)
   \<and> api_analyze example_env (Inr JsonArray) example_state
       = (Inl (attribute_error ''list'' ''get''), example_state)
   \<and> api_analyze example_env (Inr (JsonObject Map.empty)) example_state
       = (Inr (JsonError ''PR URL is required'', 400), example_state)
   \<and> fst (api_analyze unreachable_env example_request example_state)
       = Inr (JsonError ''repository not found'', 500)
   \<and> fst (api_analyze failing_models_env example_request example_state)
       = Inr (JsonResult ''No analysis result available'', 200)
   \<and> fst (api_analyze example_env example_request example_state)
       = Inr (JsonResult (report_header @ ''Risk: Low''), 200)"
proof -
  let ?url = "''https://example.org/pull/1''"
  let ?req = "[''pr_url'' \<mapsto> ?url]"
  let ?i = "unpublishing example_state"
  have rq: "example_request = Inr (JsonObject ?req)" by (simp add: example_defs)
  note c1 = api_analyze_responses [THEN conjunct1]
  note c2 = api_analyze_responses [THEN conjunct2, THEN conjunct1]
  note c3 = api_analyze_responses [THEN conjunct2, THEN conjunct2, THEN conjunct1]
  note c4 = api_analyze_responses [THEN conjunct2, THEN conjunct2, THEN conjunct2,
              THEN conjunct1]
  note c5 = api_analyze_responses [THEN conjunct2, THEN conjunct2, THEN conjunct2,
              THEN conjunct2, THEN conjunct1]
  note c6 = api_analyze_responses [THEN conjunct2, THEN conjunct2, THEN conjunct2,
              THEN conjunct2, THEN conjunct2]
  have 0: "api_analyze example_env (Inl (OtherException ''415 Unsupported Media Type''))
             example_state
           = (Inl (OtherException ''415 Unsupported Media Type''), example_state)"
    by (rule c1)
  have n: "api_analyze example_env (Inr JsonNull) example_state
       = (Inl (attribute_error ''NoneType'' ''get''), example_state)"
  proof -
    have "\<forall>d. JsonNull \<noteq> JsonObject d" by simp
    then obtain msg where m: "api_analyze example_env (Inr JsonNull) example_state
                           = (Inl (OtherException msg), example_state)"
      using c2 [THEN mp] by blast
    moreover have "fst (api_analyze example_env (Inr JsonNull) example_state)
                     = Inl (attribute_error ''NoneType'' ''get'')"
      by (simp add: api_analyze_def)
    ultimately show ?thesis by simp
  qed
  have l: "api_analyze example_env (Inr JsonArray) example_state
       = (Inl (attribute_error ''list'' ''get''), example_state)"
  proof -
    have "\<forall>d. JsonArray \<noteq> JsonObject d" by simp
    then obtain msg where m: "api_analyze example_env (Inr JsonArray) example_state
                           = (Inl (OtherException msg), example_state)"
      using c2 [THEN mp] by blast
    moreover have "fst (api_analyze example_env (Inr JsonArray) example_state)
                     = Inl (attribute_error ''list'' ''get'')"
      by (simp add: api_analyze_def)
    ultimately show ?thesis by simp
  qed
  have 1: "api_analyze example_env (Inr (JsonObject Map.empty)) example_state
     = (Inr (JsonError ''PR URL is required'', 400), example_state)"
  proof -
    have "\<not> truthy (of_opt (Map.empty ''pr_url''))" by (simp add: of_opt_def)
    then show ?thesis by (rule c3 [THEN mp])
  qed
  have 2: "fst (api_analyze unreachable_env example_request example_state)
       = Inr (JsonError ''repository not found'', 500)"
  proof -
    have "?req ''pr_url'' = Some ?url \<and> ?url \<noteq> []
      \<and> PRDeploymentImpact_init unreachable_env ?url True ?i
           = (Inl (OtherException ''repository not found''), ?i)
      \<and> is_Exception (OtherException ''repository not found'')"
      by (simp add: example_defs init_defs)
    then have "api_analyze unreachable_env (Inr (JsonObject ?req)) example_state
            = (Inr (JsonError (str_exn (OtherException ''repository not found'')), 500), ?i)"
      by (rule c4 [THEN mp])
    then show ?thesis using rq by simp
  qed
  have 3: "fst (api_analyze failing_models_env example_request example_state)
       = Inr (JsonResult ''No analysis result available'', 200)"
  proof -
    let ?s1 = "snd (PRDeploymentImpact_init failing_models_env ?url True ?i)"
    let ?s2 = "snd (run failing_models_env ?s1)"
    have "?req ''pr_url'' = Some ?url \<and> ?url \<noteq> []
      \<and> PRDeploymentImpact_init failing_models_env ?url True ?i = (Inr (), ?s1)
      \<and> run failing_models_env ?s1 = (Inr None, ?s2)"
      by (simp add: example_defs init_defs run_defs)
    then have "api_analyze failing_models_env (Inr (JsonObject ?req)) example_state
            = (Inr (JsonResult (stored_artifact (settings ?s2)), 200), ?s2)"
      by (rule c5 [THEN mp])
    moreover have "stored_artifact (settings ?s2) = ''No analysis result available''"
      by (simp add: example_defs init_defs run_defs)
    ultimately show ?thesis using rq by simp
  qed
  have 4: "fst (api_analyze example_env example_request example_state)
       = Inr (JsonResult (report_header @ ''Risk: Low''), 200)"
  proof -
    let ?s1 = "snd (PRDeploymentImpact_init example_env ?url True ?i)"
    let ?s3 = "snd (retry_with_fallback_models example_env (prepare_prediction example_env)
                      (after_start ?s1))"
    have "?req ''pr_url'' = Some ?url \<and> ?url \<noteq> []
      \<and> PRDeploymentImpact_init example_env ?url True ?i = (Inr (), ?s1)
      \<and> get_files example_env (trace ?s1) = Inr [''cache.py''] \<and> [''cache.py''] \<noteq> []
      \<and> retry_with_fallback_models example_env (prepare_prediction example_env)
           (after_start ?s1) = (Inr (), ?s3)
      \<and> prediction ?s3 = Some ''Risk: Low'' \<and> ''Risk: Low'' \<noteq> []
      \<and> provider_raises example_env (trace ?s3) (Print (report_header @ ''Risk: Low'')) = None"
      by (simp add: example_defs init_defs run_defs)
    then have "fst (api_analyze example_env (Inr (JsonObject ?req)) example_state)
            = Inr (JsonResult (report_header @ ''Risk: Low''), 200)"
      by (rule c6 [THEN mp])
    then show ?thesis using rq by simp
  qed
  from 0 n l 1 2 3 4 show ?thesis by simp
qed


end
